theory Spec2Isabelle
  imports Main "HOL-Library.Word"
begin

unbundle bit_operations_syntax

section \<open>KingDB storage engine: data model\<close>

text \<open>
  The development embeds \<^verbatim>\<open>src/storage/storage_engine.h\<close>: the classes
  \<^verbatim>\<open>FileResourceManager\<close>, \<^verbatim>\<open>LogfileManager\<close> and \<^verbatim>\<open>StorageEngine\<close>.
  Fixed-width fields (\<^verbatim>\<open>uint32_t\<close> file ids, \<^verbatim>\<open>uint64_t\<close> hashes, locations,
  timestamps and counters) are words, so that \<open>+\<close> wraps as in C++. Byte counts and file
  offsets (\<^verbatim>\<open>uint64_t\<close> sizes that index into buffers and files) are natural numbers and
  are converted with \<open>of_nat\<close> (reduction modulo the width) where the code stores them
  in a fixed-width field.
\<close>

type_synonym byte = "8 word"
type_synonym bytes = "byte list"
type_synonym u32 = "32 word"
type_synonym u64 = "64 word"

subsection \<open>std::multimap\<close>

text \<open>
  A \<^verbatim>\<open>std::multimap<uint64_t, uint64_t>\<close> is the list of its pairs in insertion order.
  Since C++11 \<^verbatim>\<open>insert\<close> places a pair after all pairs with an equivalent key, so
  \<^verbatim>\<open>equal_range\<close> yields the pairs of one key in insertion order, and iteration over the
  whole container goes by ascending key and, within a key, by insertion order.
\<close>

type_synonym multimap = "(u64 \<times> u64) list"

definition mm_insert :: "u64 \<times> u64 \<Rightarrow> multimap \<Rightarrow> multimap" where
  "mm_insert p m = m @ [p]"

definition mm_insert_range :: "(u64 \<times> u64) list \<Rightarrow> multimap \<Rightarrow> multimap" where
  "mm_insert_range ps m = foldl (\<lambda>acc p. mm_insert p acc) m ps"

definition mm_erase :: "u64 \<Rightarrow> multimap \<Rightarrow> multimap" where
  "mm_erase k m = filter (\<lambda>p. fst p \<noteq> k) m"

definition equal_range :: "multimap \<Rightarrow> u64 \<Rightarrow> (u64 \<times> u64) list" where
  "equal_range m k = filter (\<lambda>p. fst p = k) m"

definition mm_keys :: "multimap \<Rightarrow> u64 list" where
  "mm_keys m = remdups (sort (map fst m))"

definition mm_iterate :: "multimap \<Rightarrow> (u64 \<times> u64) list" where
  "mm_iterate m = concat (map (equal_range m) (mm_keys m))"

subsection \<open>Locations\<close>

definition fileid_of :: "u64 \<Rightarrow> u32" where
  "fileid_of location = ucast (drop_bit 32 (location AND 0xFFFFFFFF00000000))"

definition offset_of :: "u64 \<Rightarrow> u32" where
  "offset_of location = ucast (location AND 0x00000000FFFFFFFF)"

definition make_location :: "u32 \<Rightarrow> u64 \<Rightarrow> u64" where
  "make_location fid offset = push_bit 32 (ucast fid) OR offset"

subsection \<open>Status, orders, entries, headers\<close>

datatype Status = OK | IOError string | NotFound string | RemoveOrder

definition IsOK :: "Status \<Rightarrow> bool" where
  "IsOK s = (s = OK)"

definition IsRemoveOrder :: "Status \<Rightarrow> bool" where
  "IsRemoveOrder s = (s = RemoveOrder)"

datatype OrderType = Put | Remove

datatype FileType = kUncompactedLogType | kCompactedLogType | kCompactedLargeType

record Order =
  o_tid :: nat
  o_type :: OrderType
  o_key :: bytes
  o_chunk :: bytes
  o_offset_chunk :: nat
  o_size_value :: nat
  o_size_value_compressed :: nat
  o_crc32 :: u32

record Entry =
  e_type :: OrderType
  e_full :: bool
  e_size_key :: nat
  e_size_value :: nat
  e_size_value_compressed :: nat
  e_hash :: u64
  e_crc32 :: u32
  e_has_padding :: bool

record LogFileHeader =
  h_filetype :: FileType
  h_timestamp :: u64

record LogFileFooterIndex =
  hashed_key :: u64
  offset_entry :: u32

record LogFileFooter =
  f_filetype :: FileType
  f_has_padding_in_values :: bool
  f_has_invalid_entries :: bool
  f_offset_indexes :: u64
  f_num_entries :: u64
  f_magic_number :: u64
  f_crc32 :: u32

text \<open>
  The headers \<^verbatim>\<open>kingdb/common.h\<close>, \<^verbatim>\<open>kingdb/kdb.h\<close>, \<^verbatim>\<open>util/hash.h\<close> and
  \<^verbatim>\<open>util/crc32c.h\<close> are not part of the embedded source. What the storage engine
  takes from them (constants, the hash function, the codecs of the on-disk structures,
  the checksum and the chunk predicates of an order) is a parameter of the model.
  A decoder returns \<open>None\<close> where the C++ one returns a status that is not OK.
\<close>

record env =
  SIZE_LOGFILE_HEADER :: nat
  SIZE_LOGFILE_TOTAL :: nat
  sizeof_Entry :: nat
  HashFunction :: "bytes \<Rightarrow> u64"
  IsFirstChunk :: "Order \<Rightarrow> bool"
  IsLastChunk :: "Order \<Rightarrow> bool"
  IsCompressed :: "Entry \<Rightarrow> bool"
  IsTypeLarge :: "FileType \<Rightarrow> bool"
  IsTypeCompacted :: "FileType \<Rightarrow> bool"
  Entry_EncodeTo :: "Entry \<Rightarrow> bytes"
  Entry_DecodeFrom :: "bytes \<Rightarrow> (Entry \<times> nat) option"
  LogFileHeader_EncodeTo :: "LogFileHeader \<Rightarrow> bytes"
  LogFileHeader_DecodeFrom :: "bytes \<Rightarrow> LogFileHeader option"
  LogFileFooterIndex_EncodeTo :: "LogFileFooterIndex \<Rightarrow> bytes"
  LogFileFooterIndex_DecodeFrom :: "bytes \<Rightarrow> (LogFileFooterIndex \<times> nat) option"
  LogFileFooter_GetFixedSize :: nat
  LogFileFooter_EncodeTo :: "LogFileFooter \<Rightarrow> bytes"
  LogFileFooter_DecodeFrom :: "bytes \<Rightarrow> LogFileFooter option"
  EncodeFixed32 :: "u32 \<Rightarrow> bytes"
  crc32c_Value :: "bytes \<Rightarrow> u32"
  crc32c_Combine :: "u32 \<Rightarrow> u32 \<Rightarrow> nat \<Rightarrow> u32"
  CRC32_stream :: "bytes \<Rightarrow> u32"

definition IsSelfContained :: "env \<Rightarrow> Order \<Rightarrow> bool" where
  "IsSelfContained E ord = (IsFirstChunk E ord \<and> IsLastChunk E ord)"

definition size_value_used :: "env \<Rightarrow> Entry \<Rightarrow> nat" where
  "size_value_used E e = (if IsCompressed E e then e_size_value_compressed e else e_size_value e)"


definition get_magic_number :: u64 where
  "get_magic_number = 0x4d454f57"

subsection \<open>Files\<close>

text \<open>
  A directory maps a file id to the bytes of the file \<^verbatim>\<open>GetFilepath(fileid)\<close>.
  \<open>write_at\<close> is \<^verbatim>\<open>write\<close>/\<^verbatim>\<open>pwrite\<close> at a position (a hole is filled with zero
  bytes), \<open>ftruncate\<close> cuts or extends with zero bytes.
\<close>

type_synonym directory = "u32 \<rightharpoonup> bytes"

definition write_at :: "nat \<Rightarrow> bytes \<Rightarrow> bytes \<Rightarrow> bytes" where
  "write_at pos data content =
     take pos content @ replicate (pos - length content) 0 @ data @ drop (pos + length data) content"

definition ftruncate :: "nat \<Rightarrow> bytes \<Rightarrow> bytes" where
  "ftruncate n content = take n content @ replicate (n - length content) 0"

definition read_range :: "bytes \<Rightarrow> nat \<Rightarrow> nat \<Rightarrow> bytes" where
  "read_range buf start len = take len (drop start buf)"

section \<open>LogfileManager\<close>

text \<open>
  The state of a \<^verbatim>\<open>LogfileManager\<close> with its \<^verbatim>\<open>FileResourceManager\<close> and the
  directory it writes to. \<open>fd_pos\<close> is the file position of the descriptor \<^verbatim>\<open>fd_\<close> of
  the active file.
\<close>

record LogfileManager =
  filetype_default :: FileType
  sequence_fileid :: u32
  sequence_timestamp :: u64
  is_locked_sequence_timestamp :: bool
  has_file :: bool
  fileid :: u32
  timestamp :: u64
  offset_start :: nat
  offset_end :: nat
  buffer_raw :: bytes
  buffer_has_items :: bool
  fd_pos :: nat
  filesizes :: "u32 \<rightharpoonup> u64"
  largefiles :: "u32 set"
  compactedfiles :: "u32 set"
  num_writes_in_progress :: "u32 \<rightharpoonup> u64"
  logindexes :: "u32 \<rightharpoonup> (u64 \<times> u32) list"
  has_padding_in_values :: "u32 set"
  key_to_location :: "nat \<rightharpoonup> (bytes \<rightharpoonup> u64)"
  key_to_headersize :: "nat \<rightharpoonup> (bytes \<rightharpoonup> nat)"
  files :: directory

subsection \<open>Sequence helpers\<close>

definition SetSequenceFileId :: "u32 \<Rightarrow> LogfileManager \<Rightarrow> LogfileManager" where
  "SetSequenceFileId seq s = s\<lparr>sequence_fileid := seq\<rparr>"

definition GetSequenceFileId :: "LogfileManager \<Rightarrow> u32" where
  "GetSequenceFileId s = sequence_fileid s"

definition IncrementSequenceFileId :: "u32 \<Rightarrow> LogfileManager \<Rightarrow> u32 \<times> LogfileManager" where
  "IncrementSequenceFileId inc s =
     (let s' = s\<lparr>sequence_fileid := sequence_fileid s + inc\<rparr> in (sequence_fileid s', s'))"

definition SetSequenceTimestamp :: "u32 \<Rightarrow> LogfileManager \<Rightarrow> LogfileManager" where
  "SetSequenceTimestamp seq s =
     (if \<not> is_locked_sequence_timestamp s then s\<lparr>sequence_timestamp := ucast seq\<rparr> else s)"

definition GetSequenceTimestamp :: "LogfileManager \<Rightarrow> u64" where
  "GetSequenceTimestamp s = sequence_timestamp s"

definition IncrementSequenceTimestamp :: "u64 \<Rightarrow> LogfileManager \<Rightarrow> u64 \<times> LogfileManager" where
  "IncrementSequenceTimestamp inc s =
     (let s' = (if \<not> is_locked_sequence_timestamp s
                then s\<lparr>sequence_timestamp := sequence_timestamp s + inc\<rparr> else s)
      in (sequence_timestamp s', s'))"

definition LockSequenceTimestamp :: "u64 \<Rightarrow> LogfileManager \<Rightarrow> LogfileManager" where
  "LockSequenceTimestamp seq s =
     s\<lparr>is_locked_sequence_timestamp := True, sequence_timestamp := seq\<rparr>"

text \<open>
  A client of the timestamp sequence calls the two mutators in any order;
  \<^verbatim>\<open>SetSequenceTimestamp\<close> returns nothing, \<^verbatim>\<open>IncrementSequenceTimestamp\<close> returns the
  sequence value after the call.
\<close>

datatype ts_call = CallSet u32 | CallIncrement u64

fun run_ts_call :: "ts_call \<Rightarrow> LogfileManager \<Rightarrow> u64 option \<times> LogfileManager" where
  "run_ts_call (CallSet seq) s = (None, SetSequenceTimestamp seq s)"
| "run_ts_call (CallIncrement inc) s =
     (let (r, s') = IncrementSequenceTimestamp inc s in (Some r, s'))"

fun run_ts_calls :: "ts_call list \<Rightarrow> LogfileManager \<Rightarrow> u64 option list \<times> LogfileManager" where
  "run_ts_calls [] s = ([], s)"
| "run_ts_calls (c # cs) s =
     (let (r, s') = run_ts_call c s; (rs, s'') = run_ts_calls cs s' in (r # rs, s''))"

fun returns_of :: "u64 \<Rightarrow> ts_call \<Rightarrow> u64 option" where
  "returns_of seq (CallSet v) = None"
| "returns_of seq (CallIncrement inc) = Some seq"

definition manager0 :: "FileType \<Rightarrow> LogfileManager" where
  "manager0 ft =
     \<lparr>filetype_default = ft, sequence_fileid = 0, sequence_timestamp = 0,
      is_locked_sequence_timestamp = False, has_file = False, fileid = 0, timestamp = 0,
      offset_start = 0, offset_end = 0, buffer_raw = [], buffer_has_items = False, fd_pos = 0,
      filesizes = Map.empty, largefiles = {}, compactedfiles = {},
      num_writes_in_progress = Map.empty, logindexes = Map.empty, has_padding_in_values = {},
      key_to_location = Map.empty, key_to_headersize = Map.empty, files = Map.empty\<rparr>"

section \<open>StorageEngine: lookup\<close>

text \<open>
  Reads of a \<^verbatim>\<open>std::map\<close> through \<^verbatim>\<open>operator[]\<close> insert a value-initialised
  entry for a missing key. Every read of the maps below goes through \<^verbatim>\<open>operator[]\<close>
  (or through \<^verbatim>\<open>find\<close> followed by the assignment of the same default), so a missing
  key and a key bound to the default cannot be told apart; the model reads with the default
  and leaves the map as it is.
\<close>

definition GetFileSize :: "LogfileManager \<Rightarrow> u32 \<Rightarrow> u64" where
  "GetFileSize s fid = (case filesizes s fid of None \<Rightarrow> 0 | Some n \<Rightarrow> n)"

definition IsFileLarge :: "LogfileManager \<Rightarrow> u32 \<Rightarrow> bool" where
  "IsFileLarge s fid = (fid \<in> largefiles s)"

definition file_content :: "directory \<Rightarrow> u32 \<Rightarrow> bytes" where
  "file_content d fid = (case d fid of None \<Rightarrow> [] | Some c \<Rightarrow> c)"

text \<open>
  The value that \<^verbatim>\<open>GetEntry\<close> hands out is a view into the mapped file: an offset and
  the sizes and checksums copied from the entry header. The view is not checked against the
  size of the file.
\<close>

record ValueView =
  vv_offset :: nat
  vv_size :: nat
  vv_size_compressed :: nat
  vv_crc32 :: u32
  vv_initial_crc32 :: u32

text \<open>
  \<^verbatim>\<open>GetEntry\<close> maps the first \<^verbatim>\<open>filesize\<close> bytes of the file (the size recorded by the
  file resource manager), decodes the entry header at the offset of the location, sets the
  views of the key and of the value and computes the checksum of the header and the key.
  The model has no result (\<open>None\<close>) where the code reads outside the mapping: the file is
  missing or shorter than the recorded size, the recorded size is zero, the offset lies
  beyond the recorded size (the length \<^verbatim>\<open>filesize - offset_file\<close> handed to the decoder
  wraps around), or the header and the key, over which the checksum is computed, do not lie
  within the mapping. The offset of the key is the sum of two \<^verbatim>\<open>uint32_t\<close> and wraps
  at 32 bits. The sizes that a decoder returns are values of their C++ types. When the header does not decode, or the entry is not of type Full,
  \<^verbatim>\<open>GetEntry\<close> returns early and leaves \<^verbatim>\<open>*key_out\<close> and \<^verbatim>\<open>*value_out\<close> unassigned:
  they are \<open>None\<close> in the result. For a Remove entry the value is deleted and the status
  is \<^verbatim>\<open>RemoveOrder\<close>.
\<close>

definition GetEntry ::
  "env \<Rightarrow> LogfileManager \<Rightarrow> u64 \<Rightarrow> (Status \<times> bytes option \<times> ValueView option) option" where
  "GetEntry E lm location =
     (let fid = fileid_of location;
          offset_file = unat (offset_of location);
          filesize = unat (GetFileSize lm fid)
      in case files lm fid of
           None \<Rightarrow> None
         | Some content \<Rightarrow>
             if filesize = 0 \<or> length content < filesize \<or> filesize < offset_file then None
             else
               let datafile = take filesize content
               in (case Entry_DecodeFrom E (drop offset_file datafile) of
                     None \<Rightarrow> Some (IOError ''Entry::DecodeFrom'', None, None)
                   | Some (entry, size_header) \<Rightarrow>
                       let key_offset = unat (offset_of location + (of_nat size_header :: u32))
                       in
                       if size_header + e_size_key entry < 4
                          \<or> filesize < offset_file + size_header + e_size_key entry
                          \<or> filesize < key_offset + e_size_key entry
                       then None
                       else
                         let key_temp = read_range datafile key_offset (e_size_key entry);
                             crc32_headerkey = crc32c_Value E
                               (read_range datafile (offset_file + 4)
                                  (size_header + e_size_key entry - 4));
                             value_temp = \<lparr>vv_offset = unat ((of_nat key_offset :: u64) + of_nat (e_size_key entry)),
                                           vv_size = e_size_value entry,
                                           vv_size_compressed = e_size_value_compressed entry,
                                           vv_crc32 = e_crc32 entry,
                                           vv_initial_crc32 = crc32_headerkey\<rparr>
                         in if \<not> e_full entry
                            then Some (IOError ''Entries of type not FULL are not supported'',
                                       None, None)
                            else if e_type entry = Remove
                            then Some (RemoveOrder, Some key_temp, None)
                            else Some (OK, Some key_temp, Some value_temp)))"

text \<open>
  \<^verbatim>\<open>GetWithIndex\<close> takes the bucket of the hashed key with \<^verbatim>\<open>equal_range\<close> and walks it
  from \<^verbatim>\<open>--range.second\<close> down to, and without, \<^verbatim>\<open>--range.first\<close>. Decrementing
  \<^verbatim>\<open>range.first\<close> is undefined when it is \<^verbatim>\<open>index.begin()\<close>, that is, when no pair of
  the index has a smaller hashed key than the one looked up (which includes the empty
  index): the model has no result (\<open>None\<close>) there. Otherwise the loop visits the bucket
  from its last pair to its first. The result is the status, the value and
  \<^verbatim>\<open>*location_out\<close>. Comparing the key when \<^verbatim>\<open>GetEntry\<close> left \<^verbatim>\<open>key_temp\<close> unassigned
  has no defined behaviour either.
\<close>

fun GetWithIndex_loop ::
  "env \<Rightarrow> LogfileManager \<Rightarrow> bytes \<Rightarrow> u64 list \<Rightarrow> (Status \<times> ValueView option \<times> u64 option) option" where
  "GetWithIndex_loop E lm key [] =
     Some (NotFound ''Unable to find the entry in the storage engine'', None, None)"
| "GetWithIndex_loop E lm key (location # rest) =
     (case GetEntry E lm location of
        None \<Rightarrow> None
      | Some (s, None, value_out) \<Rightarrow> None
      | Some (s, Some key_temp, value_out) \<Rightarrow>
          if key_temp = key
          then Some (if IsRemoveOrder s
                     then NotFound ''Unable to find the entry in the storage engine (remove order)''
                     else s,
                     value_out, Some location)
          else GetWithIndex_loop E lm key rest)"

definition range_first_is_begin :: "multimap \<Rightarrow> u64 \<Rightarrow> bool" where
  "range_first_is_begin index h = list_all (\<lambda>p. h \<le> fst p) index"

definition GetWithIndex ::
  "env \<Rightarrow> LogfileManager \<Rightarrow> multimap \<Rightarrow> bytes \<Rightarrow> (Status \<times> ValueView option \<times> u64 option) option" where
  "GetWithIndex E lm index key =
     (let hashed_key = HashFunction E key;
          range = equal_range index hashed_key
      in if range_first_is_begin index hashed_key then None
         else GetWithIndex_loop E lm key (rev (map snd range)))"

text \<open>What is stored at a location, read off \<^verbatim>\<open>GetEntry\<close>.\<close>

definition key_at :: "env \<Rightarrow> LogfileManager \<Rightarrow> u64 \<Rightarrow> bytes option" where
  "key_at E lm location =
     (case GetEntry E lm location of None \<Rightarrow> None | Some (s, key_out, value_out) \<Rightarrow> key_out)"

definition value_at :: "env \<Rightarrow> LogfileManager \<Rightarrow> u64 \<Rightarrow> ValueView option" where
  "value_at E lm location =
     (case GetEntry E lm location of None \<Rightarrow> None | Some (s, key_out, value_out) \<Rightarrow> value_out)"

definition is_remove_at :: "env \<Rightarrow> LogfileManager \<Rightarrow> u64 \<Rightarrow> bool" where
  "is_remove_at E lm location =
     (case GetEntry E lm location of
        None \<Rightarrow> False
      | Some (s, key_out, value_out) \<Rightarrow> IsRemoveOrder s)"

section \<open>LogfileManager: footers, loading and recovery\<close>

text \<open>
  \<^verbatim>\<open>WriteLogIndex\<close> encodes the pairs of the footer index and the fixed footer into
  \<^verbatim>\<open>buffer_index_\<close>, overwrites the last four bytes with the checksum of what precedes
  them and appends the buffer to the file (\<^verbatim>\<open>lseek\<close> to the end, then \<^verbatim>\<open>write\<close>). The
  model takes the content of the file and returns the new content with \<^verbatim>\<open>*size_out\<close>.
  Fields of the footer that the code does not assign (the checksum before it is computed,
  flags that are not set) are zero. There is no result when the encoded region is shorter
  than four bytes (\<^verbatim>\<open>offset - 4\<close> wraps around) or longer than \<^verbatim>\<open>buffer_index_\<close>, which
  has twice \<^verbatim>\<open>SIZE_LOGFILE_TOTAL\<close> bytes.
\<close>

definition WriteLogIndex ::
  "env \<Rightarrow> bytes \<Rightarrow> (u64 \<times> u32) list \<Rightarrow> FileType \<Rightarrow> bool \<Rightarrow> bool \<Rightarrow> (bytes \<times> nat) option" where
  "WriteLogIndex E content logindex_current filetype has_padding has_invalid_entries =
     (let index_bytes = concat (map (\<lambda>p. LogFileFooterIndex_EncodeTo E
                                   \<lparr>hashed_key = fst p, offset_entry = snd p\<rparr>) logindex_current);
          position = length content;
          footer = \<lparr>f_filetype = filetype,
                    f_has_padding_in_values = has_padding,
                    f_has_invalid_entries = has_invalid_entries,
                    f_offset_indexes = of_nat position,
                    f_num_entries = of_nat (length logindex_current),
                    f_magic_number = get_magic_number,
                    f_crc32 = 0\<rparr>;
          buffer_index = index_bytes @ LogFileFooter_EncodeTo E footer;
          offset = length buffer_index
      in if offset < 4 \<or> 2 * SIZE_LOGFILE_TOTAL E < offset then None
         else
           let crc32 = crc32c_Value E (take (offset - 4) buffer_index);
               buffer_index' = write_at (offset - 4) (EncodeFixed32 E crc32) buffer_index
           in Some (content @ take offset buffer_index', offset))"

text \<open>
  \<^verbatim>\<open>LoadFile\<close> on the mapped bytes of a file. There is no result where the code reads
  outside the mapping (a file shorter than the fixed footer, a footer whose
  \<^verbatim>\<open>offset_indexes\<close> lies beyond the checksum, an index entry beyond the end), where it
  uses the output of a decoder of a footer index entry that failed, or where the
  \<^verbatim>\<open>int\<close> counter of the loop would pass \<^verbatim>\<open>INT_MAX\<close>.
\<close>

fun LoadFile_loop :: "env \<Rightarrow> bytes \<Rightarrow> u32 \<Rightarrow> nat \<Rightarrow> nat \<Rightarrow> multimap \<Rightarrow> multimap option" where
  "LoadFile_loop E data fid 0 offset_index index_se = Some index_se"
| "LoadFile_loop E data fid (Suc n) offset_index index_se =
     (if length data < offset_index then None
      else case LogFileFooterIndex_DecodeFrom E (drop offset_index data) of
             None \<Rightarrow> None
           | Some (lffi, length_lffi) \<Rightarrow>
               LoadFile_loop E data fid n (offset_index + length_lffi)
                 (mm_insert (hashed_key lffi, make_location fid (ucast (offset_entry lffi)))
                    index_se))"

definition LoadFile ::
  "env \<Rightarrow> bytes \<Rightarrow> u32 \<Rightarrow> multimap \<Rightarrow> (Status \<times> multimap \<times> nat \<times> bool \<times> bool) option" where
  "LoadFile E data fid index_se =
     (let filesize = length data; fixed = LogFileFooter_GetFixedSize E
      in if filesize < fixed then None
         else case LogFileFooter_DecodeFrom E (read_range data (filesize - fixed) fixed) of
                None \<Rightarrow> Some (IOError ''Invalid footer'', index_se, 0, False, False)
              | Some footer \<Rightarrow>
                  if f_magic_number footer \<noteq> get_magic_number
                  then Some (IOError ''Invalid footer'', index_se, 0, False, False)
                  else if filesize < unat (f_offset_indexes footer) + 4 then None
                  else
                    let offset_indexes = unat (f_offset_indexes footer);
                        crc32_computed = crc32c_Value E
                          (read_range data offset_indexes (filesize - offset_indexes - 4))
                    in if crc32_computed \<noteq> f_crc32 footer
                       then Some (IOError ''Invalid footer'', index_se, 0, False, False)
                       else if 0x7FFFFFFF < f_num_entries footer then None
                       else (case LoadFile_loop E data fid (unat (f_num_entries footer))
                                    offset_indexes index_se of
                               None \<Rightarrow> None
                             | Some index_se' \<Rightarrow>
                                 Some (OK, index_se', filesize,
                                       IsTypeLarge E (f_filetype footer),
                                       IsTypeCompacted E (f_filetype footer))))"















definition index_pair :: "u32 \<Rightarrow> u64 \<times> u32 \<Rightarrow> u64 \<times> u64" where
  "index_pair fid p = (fst p, make_location fid (ucast (snd p)))"

section \<open>LogfileManager: the write path\<close>

text \<open>
  The functions of the write path return \<open>None\<close> where the process exits (\<^verbatim>\<open>open\<close>
  fails in \<^verbatim>\<open>WriteChunk\<close> because the file does not exist) and where the code reads or
  writes outside one of its buffers. \<^verbatim>\<open>buffer_raw_\<close> is the list \<open>buffer_raw\<close>, of the
  size it was allocated with. The content of a buffer on the stack before the code writes
  to it is not determined by the code: \<open>U n\<close> stands for the content of such a buffer of
  \<open>n\<close> bytes. A field of a \<^verbatim>\<open>struct Entry\<close> that the code does not assign is zero or
  false. \<^verbatim>\<open>open\<close> with \<^verbatim>\<open>O_CREAT\<close> creates an empty file where there is none and
  keeps the content of an existing one; a failing \<^verbatim>\<open>write\<close> is only logged by the code
  and not modelled. Sums that the code computes with 32 or 64 bits wrap around.
\<close>

definition u64_add :: "nat \<Rightarrow> nat \<Rightarrow> nat" where
  "u64_add a b = unat ((of_nat a :: u64) + of_nat b)"

definition u64_sub :: "nat \<Rightarrow> nat \<Rightarrow> nat" where
  "u64_sub a b = unat ((of_nat a :: u64) - of_nat b)"

subsection \<open>FileResourceManager\<close>

definition SetFileSize :: "u32 \<Rightarrow> u64 \<Rightarrow> LogfileManager \<Rightarrow> LogfileManager" where
  "SetFileSize fid filesize lm = lm\<lparr>filesizes := (filesizes lm)(fid \<mapsto> filesize)\<rparr>"

definition SetFileLarge :: "u32 \<Rightarrow> LogfileManager \<Rightarrow> LogfileManager" where
  "SetFileLarge fid lm = lm\<lparr>largefiles := insert fid (largefiles lm)\<rparr>"

definition GetNumWritesInProgress :: "LogfileManager \<Rightarrow> u32 \<Rightarrow> u32" where
  "GetNumWritesInProgress lm fid =
     (case num_writes_in_progress lm fid of None \<Rightarrow> 0 | Some n \<Rightarrow> ucast n)"

definition SetNumWritesInProgress :: "u32 \<Rightarrow> int \<Rightarrow> LogfileManager \<Rightarrow> u32 \<times> LogfileManager" where
  "SetNumWritesInProgress fid inc lm =
     (let n = (case num_writes_in_progress lm fid of None \<Rightarrow> 0 | Some n \<Rightarrow> n) + of_int inc
      in (ucast n, lm\<lparr>num_writes_in_progress := (num_writes_in_progress lm)(fid \<mapsto> n)\<rparr>))"

definition GetLogIndex :: "LogfileManager \<Rightarrow> u32 \<Rightarrow> (u64 \<times> u32) list" where
  "GetLogIndex lm fid = (case logindexes lm fid of None \<Rightarrow> [] | Some l \<Rightarrow> l)"

definition AddLogIndex :: "u32 \<Rightarrow> u64 \<times> u32 \<Rightarrow> LogfileManager \<Rightarrow> LogfileManager" where
  "AddLogIndex fid p lm = lm\<lparr>logindexes := (logindexes lm)(fid \<mapsto> GetLogIndex lm fid @ [p])\<rparr>"

definition HasPaddingInValues :: "LogfileManager \<Rightarrow> u32 \<Rightarrow> bool" where
  "HasPaddingInValues lm fid = (fid \<in> has_padding_in_values lm)"

definition SetHasPaddingInValues :: "u32 \<Rightarrow> bool \<Rightarrow> LogfileManager \<Rightarrow> LogfileManager" where
  "SetHasPaddingInValues fid flag lm =
     (if flag then lm\<lparr>has_padding_in_values := insert fid (has_padding_in_values lm)\<rparr>
      else lm\<lparr>has_padding_in_values := has_padding_in_values lm - {fid}\<rparr>)"

definition ResetDataForFileId :: "u32 \<Rightarrow> LogfileManager \<Rightarrow> LogfileManager" where
  "ResetDataForFileId fid lm =
     lm\<lparr>num_writes_in_progress := (num_writes_in_progress lm)(fid := None),
        logindexes := (logindexes lm)(fid := None),
        has_padding_in_values := has_padding_in_values lm - {fid}\<rparr>"

subsection \<open>The active file\<close>

definition OpenNewFile :: "env \<Rightarrow> LogfileManager \<Rightarrow> LogfileManager option" where
  "OpenNewFile E lm =
     (let (fid, lm1) = IncrementSequenceFileId 1 lm;
          (ts, lm2) = IncrementSequenceTimestamp 1 lm1;
          header = LogFileHeader_EncodeTo E
                     \<lparr>h_filetype = filetype_default lm2, h_timestamp = ts\<rparr>
      in if length (buffer_raw lm2) < length header then None
         else Some (lm2\<lparr>files := (files lm2)(fid \<mapsto> file_content (files lm2) fid),
                        fd_pos := 0, has_file := True, fileid := fid, timestamp := ts,
                        offset_start := 0, offset_end := SIZE_LOGFILE_HEADER E,
                        buffer_raw := write_at 0 header (buffer_raw lm2)\<rparr>))"

definition FlushLogIndex :: "env \<Rightarrow> LogfileManager \<Rightarrow> LogfileManager option" where
  "FlushLogIndex E lm =
     (if \<not> has_file lm then Some lm
      else if GetNumWritesInProgress lm (fileid lm) = 0 then
        (case WriteLogIndex E (file_content (files lm) (fileid lm)) (GetLogIndex lm (fileid lm))
                (filetype_default lm) (HasPaddingInValues lm (fileid lm)) False of
           None \<Rightarrow> None
         | Some (content', size_logindex) \<Rightarrow>
             Some (SetFileSize (fileid lm) (GetFileSize lm (fileid lm) + of_nat size_logindex)
                     (lm\<lparr>files := (files lm)(fileid lm \<mapsto> content'),
                         fd_pos := length content'\<rparr>)))
      else Some lm)"

definition CloseCurrentFile :: "env \<Rightarrow> LogfileManager \<Rightarrow> LogfileManager option" where
  "CloseCurrentFile E lm =
     (if \<not> has_file lm then Some lm
      else case FlushLogIndex E lm of
             None \<Rightarrow> None
           | Some lm' \<Rightarrow> Some (lm'\<lparr>buffer_has_items := False, has_file := False\<rparr>))"

definition FlushCurrentFile ::
  "env \<Rightarrow> bool \<Rightarrow> nat \<Rightarrow> LogfileManager \<Rightarrow> (u32 \<times> LogfileManager) option" where
  "FlushCurrentFile E force_new_file padding lm =
     (if \<not> has_file lm then Some (0, lm)
      else if buffer_has_items lm
              \<and> (offset_end lm < offset_start lm \<or> length (buffer_raw lm) < offset_end lm)
      then None
      else
        let fileid_out = fileid lm;
            lm1 = (if buffer_has_items lm then
                     SetFileSize (fileid lm) (of_nat (offset_end lm))
                       (lm\<lparr>files := (files lm)(fileid lm \<mapsto>
                              write_at (fd_pos lm)
                                (read_range (buffer_raw lm) (offset_start lm)
                                   (offset_end lm - offset_start lm))
                                (file_content (files lm) (fileid lm))),
                           fd_pos := fd_pos lm + (offset_end lm - offset_start lm),
                           offset_start := offset_end lm,
                           buffer_has_items := False\<rparr>)
                   else lm);
            lm2 = (if padding \<noteq> 0 then
                     SetFileSize (fileid lm1) (of_nat (u64_add (offset_end lm1) padding))
                       (lm1\<lparr>offset_end := u64_add (offset_end lm1) padding,
                            offset_start := u64_add (offset_end lm1) padding,
                            files := (files lm1)(fileid lm1 \<mapsto>
                              ftruncate (u64_add (offset_end lm1) padding)
                                (file_content (files lm1) (fileid lm1))),
                            fd_pos := u64_add (offset_end lm1) padding\<rparr>)
                   else lm1)
        in if SIZE_LOGFILE_TOTAL E \<le> offset_end lm2
              \<or> (force_new_file \<and> SIZE_LOGFILE_HEADER E < offset_end lm2)
           then (case CloseCurrentFile E (SetFileSize (fileid lm2) (of_nat (offset_end lm2)) lm2) of
                   None \<Rightarrow> None
                 | Some lm3 \<Rightarrow> Some (fileid_out, lm3))
           else Some (fileid_out, lm2))"

subsection \<open>Writing one order\<close>

definition headersize_of :: "LogfileManager \<Rightarrow> Order \<Rightarrow> nat" where
  "headersize_of lm order =
     (case key_to_headersize lm (o_tid order) of
        None \<Rightarrow> 0
      | Some m \<Rightarrow> (case m (o_key order) of None \<Rightarrow> 0 | Some n \<Rightarrow> n))"

definition location_of :: "LogfileManager \<Rightarrow> Order \<Rightarrow> u64" where
  "location_of lm order =
     (case key_to_location lm (o_tid order) of
        None \<Rightarrow> 0
      | Some m \<Rightarrow> (case m (o_key order) of None \<Rightarrow> 0 | Some l \<Rightarrow> l))"

definition set_key :: "nat \<Rightarrow> bytes \<Rightarrow> 'a \<Rightarrow> (nat \<rightharpoonup> (bytes \<rightharpoonup> 'a)) \<Rightarrow> (nat \<rightharpoonup> (bytes \<rightharpoonup> 'a))" where
  "set_key tid key v km =
     km(tid \<mapsto> (case km tid of None \<Rightarrow> Map.empty | Some m \<Rightarrow> m)(key \<mapsto> v))"

definition erase_key :: "nat \<Rightarrow> bytes \<Rightarrow> (nat \<rightharpoonup> (bytes \<rightharpoonup> 'a)) \<Rightarrow> (nat \<rightharpoonup> (bytes \<rightharpoonup> 'a))" where
  "erase_key tid key km = (case km tid of None \<Rightarrow> km | Some m \<Rightarrow> km(tid \<mapsto> m(key := None)))"

definition WriteFirstChunkLargeOrder ::
  "env \<Rightarrow> (nat \<Rightarrow> bytes) \<Rightarrow> Order \<Rightarrow> u64 \<Rightarrow> LogfileManager \<Rightarrow> (u64 \<times> LogfileManager) option" where
  "WriteFirstChunkLargeOrder E U order h lm =
     (let (fileid_largefile, lm1) = IncrementSequenceFileId 1 lm;
          (timestamp_largefile, lm2) = IncrementSequenceTimestamp 1 lm1;
          header = LogFileHeader_EncodeTo E
                     \<lparr>h_filetype = kCompactedLargeType, h_timestamp = timestamp_largefile\<rparr>;
          entry = \<lparr>e_type = Put, e_full = True, e_size_key = length (o_key order),
                   e_size_value = o_size_value order,
                   e_size_value_compressed = o_size_value_compressed order,
                   e_hash = h, e_crc32 = 0, e_has_padding = False\<rparr>;
          entry_header = Entry_EncodeTo E entry;
          size_header = length entry_header
      in if length (U (SIZE_LOGFILE_HEADER E)) \<noteq> SIZE_LOGFILE_HEADER E
            \<or> SIZE_LOGFILE_HEADER E < length header
            \<or> SIZE_LOGFILE_HEADER E < size_header
         then None
         else
           let buffer = write_at 0 header (U (SIZE_LOGFILE_HEADER E));
               c1 = write_at 0 buffer (file_content (files lm2) fileid_largefile);
               c2 = write_at (SIZE_LOGFILE_HEADER E) entry_header c1;
               c3 = write_at (SIZE_LOGFILE_HEADER E + size_header) (o_key order) c2;
               c4 = write_at (SIZE_LOGFILE_HEADER E + size_header + length (o_key order))
                      (o_chunk order) c3;
               filesize = u64_add (SIZE_LOGFILE_HEADER E + size_header + length (o_key order))
                            (o_size_value order);
               lm3 = SetFileSize fileid_largefile (of_nat filesize)
                       (lm2\<lparr>key_to_headersize :=
                              set_key (o_tid order) (o_key order) size_header (key_to_headersize lm2),
                            files := (files lm2)(fileid_largefile \<mapsto> ftruncate filesize c4)\<rparr>);
               (n, lm4) = SetNumWritesInProgress fileid_largefile 1 lm3
           in Some (push_bit 32 (ucast fileid_largefile) OR of_nat (SIZE_LOGFILE_HEADER E), lm4))"

definition WriteChunk ::
  "env \<Rightarrow> (nat \<Rightarrow> bytes) \<Rightarrow> Order \<Rightarrow> u64 \<Rightarrow> u64 \<Rightarrow> bool \<Rightarrow> LogfileManager
   \<Rightarrow> (u64 \<times> LogfileManager) option" where
  "WriteChunk E U order h location is_large_order lm =
     (let fid = fileid_of location;
          offset_file = offset_of location;
          size_header = headersize_of lm order
      in case files lm fid of
           None \<Rightarrow> None
         | Some content \<Rightarrow>
             let position = unat ((ucast (offset_file + of_nat size_header) :: u64)
                                  + of_nat (length (o_key order)) + of_nat (o_offset_chunk order));
                 c1 = write_at position (o_chunk order) content
             in if \<not> IsLastChunk E order
                then Some (location, lm\<lparr>files := (files lm)(fid \<mapsto> c1)\<rparr>)
                else
                  let entry0 = \<lparr>e_type = Put, e_full = True, e_size_key = length (o_key order),
                                e_size_value = o_size_value order,
                                e_size_value_compressed = o_size_value_compressed order,
                                e_hash = h, e_crc32 = 0, e_has_padding = False\<rparr>;
                      padded = (\<not> is_large_order \<and> IsCompressed E entry0);
                      entry1 = entry0\<lparr>e_has_padding := padded\<rparr>;
                      lm1 = (if padded then SetHasPaddingInValues (fileid lm) True lm else lm);
                      header1 = Entry_EncodeTo E entry1;
                      entry2 = entry1\<lparr>e_crc32 := crc32c_Combine E (crc32c_Value E (drop 4 header1))
                                 (o_crc32 order) (e_size_key entry1 + size_value_used E entry1)\<rparr>;
                      header2 = Entry_EncodeTo E entry2;
                      capacity = 2 * sizeof_Entry E
                  in if length (U capacity) \<noteq> capacity \<or> length header1 < 4
                        \<or> capacity < length header1 \<or> capacity < length header2
                        \<or> capacity < size_header
                     then None
                     else
                       let buffer = write_at 0 header2 (write_at 0 header1 (U capacity));
                           c2 = write_at (unat offset_file) (take size_header buffer) c1;
                           shrink = (is_large_order \<and> IsCompressed E entry2);
                           filesize = u64_add (SIZE_LOGFILE_HEADER E + size_header
                                               + length (o_key order))
                                        (o_size_value_compressed order);
                           c3 = (if shrink then ftruncate filesize c2 else c2);
                           lm2 = (if shrink then SetFileSize fid (of_nat filesize) lm1 else lm1);
                           (num_writes, lm3) =
                              SetNumWritesInProgress fid (- 1) (lm2\<lparr>files := (files lm2)(fid \<mapsto> c3)\<rparr>)
                       in if fid \<noteq> fileid lm3 \<and> num_writes = 0 then
                            (case WriteLogIndex E c3 (GetLogIndex lm3 fid)
                                    (if is_large_order then kCompactedLargeType
                                     else filetype_default lm3)
                                    (HasPaddingInValues lm3 fid) False of
                               None \<Rightarrow> None
                             | Some (c4, size_logindex) \<Rightarrow>
                                 let lm4 = SetFileSize fid (GetFileSize lm3 fid + of_nat size_logindex)
                                             (lm3\<lparr>files := (files lm3)(fid \<mapsto> c4)\<rparr>);
                                     lm5 = (if is_large_order then SetFileLarge fid lm4 else lm4)
                                 in Some (location, ResetDataForFileId fid lm5))
                          else Some (location, lm3))"

definition WriteFirstChunkOrSmallOrder ::
  "env \<Rightarrow> Order \<Rightarrow> u64 \<Rightarrow> LogfileManager \<Rightarrow> (u64 \<times> LogfileManager) option" where
  "WriteFirstChunkOrSmallOrder E order h lm =
     (case o_type order of
        Put \<Rightarrow>
          (let entry = \<lparr>e_type = Put, e_full = True, e_size_key = length (o_key order),
                        e_size_value = o_size_value order,
                        e_size_value_compressed = o_size_value_compressed order,
                        e_hash = h, e_crc32 = o_crc32 order,
                        e_has_padding = (\<not> IsSelfContained E order)\<rparr>;
               lm1 = (if IsSelfContained E order then lm
                      else SetHasPaddingInValues (fileid lm) True lm);
               header1 = Entry_EncodeTo E entry;
               entry' = entry\<lparr>e_crc32 := crc32c_Combine E (crc32c_Value E (drop 4 header1))
                          (o_crc32 order) (e_size_key entry + size_value_used E entry)\<rparr>;
               header = (if IsSelfContained E order then Entry_EncodeTo E entry' else header1);
               size_header = length header;
               bytes_out = header @ o_key order @ o_chunk order
           in if (IsSelfContained E order \<and> length header1 < 4)
                 \<or> length (buffer_raw lm1) < offset_end lm1 + max (length header1) (length bytes_out)
              then None
              else
                let buffer = write_at (offset_end lm1) bytes_out
                               (write_at (offset_end lm1) header1 (buffer_raw lm1));
                    location_out = make_location (fileid lm1) (of_nat (offset_end lm1));
                    lm2 = AddLogIndex (fileid lm1) (h, of_nat (offset_end lm1))
                            (lm1\<lparr>buffer_raw := buffer\<rparr>);
                    lm3 = lm2\<lparr>offset_end := offset_end lm2 + length bytes_out\<rparr>
                in if IsSelfContained E order then Some (location_out, lm3)
                   else
                     let lm4 = lm3\<lparr>key_to_headersize :=
                                 set_key (o_tid order) (o_key order) size_header
                                   (key_to_headersize lm3)\<rparr>;
                         (n, lm5) = SetNumWritesInProgress (fileid lm4) 1 lm4
                     in (case FlushCurrentFile E False
                                (u64_sub (o_size_value order) (length (o_chunk order))) lm5 of
                           None \<Rightarrow> None
                         | Some (fid, lm6) \<Rightarrow> Some (location_out, lm6)))
      | Remove \<Rightarrow>
          (let entry = \<lparr>e_type = Remove, e_full = True, e_size_key = length (o_key order),
                        e_size_value = 0, e_size_value_compressed = 0,
                        e_hash = 0, e_crc32 = 0, e_has_padding = False\<rparr>;
               bytes_out = Entry_EncodeTo E entry @ o_key order
           in if length (buffer_raw lm) < offset_end lm + length bytes_out then None
              else
                let lm1 = AddLogIndex (fileid lm) (h, of_nat (offset_end lm))
                            (lm\<lparr>buffer_raw := write_at (offset_end lm) bytes_out (buffer_raw lm)\<rparr>)
                in Some (make_location (fileid lm) (of_nat (offset_end lm)),
                         lm1\<lparr>offset_end := offset_end lm1 + length bytes_out\<rparr>)))"

text \<open>
  One iteration of the loop of \<^verbatim>\<open>WriteOrdersAndFlushFile\<close>, in three parts: what the
  loop does before it looks at the order (\<^verbatim>\<open>OpenNewFile\<close> when there is no active file,
  then the forced flush when the buffer has passed the size of a block), the choice among
  the three ways of writing, and the bookkeeping of the location.
\<close>

definition WriteOrder_prepare :: "env \<Rightarrow> LogfileManager \<Rightarrow> LogfileManager option" where
  "WriteOrder_prepare E lm =
     (case (if \<not> has_file lm then OpenNewFile E lm else Some lm) of
        None \<Rightarrow> None
      | Some lm1 \<Rightarrow>
          if SIZE_LOGFILE_TOTAL E < offset_end lm1
          then (case FlushCurrentFile E True 0 lm1 of
                  None \<Rightarrow> None
                | Some (fid, lm2) \<Rightarrow> Some lm2)
          else Some lm1)"

definition is_large_order :: "env \<Rightarrow> Order \<Rightarrow> bool" where
  "is_large_order E order =
     ((of_nat (SIZE_LOGFILE_TOTAL E) :: u64)
        < of_nat (length (o_key order)) + of_nat (o_size_value order))"

definition WriteOrder_dispatch ::
  "env \<Rightarrow> (nat \<Rightarrow> bytes) \<Rightarrow> Order \<Rightarrow> u64 \<Rightarrow> LogfileManager \<Rightarrow> (u64 \<times> LogfileManager) option" where
  "WriteOrder_dispatch E U order h lm =
     (if is_large_order E order \<and> IsFirstChunk E order
      then WriteFirstChunkLargeOrder E U order h lm
      else if o_offset_chunk order \<noteq> 0 then
        (if location_of lm order \<noteq> 0
         then WriteChunk E U order h (location_of lm order) (is_large_order E order) lm
         else Some (0, lm))
      else WriteFirstChunkOrSmallOrder E order h (lm\<lparr>buffer_has_items := True\<rparr>))"

definition WriteOrder_finish ::
  "env \<Rightarrow> Order \<Rightarrow> u64 \<Rightarrow> u64 \<Rightarrow> LogfileManager \<times> multimap \<Rightarrow> LogfileManager \<times> multimap" where
  "WriteOrder_finish E order h location st =
     (let lm = fst st; map_index_out = snd st
      in if IsSelfContained E order \<or> IsLastChunk E order then
           (lm\<lparr>key_to_location := erase_key (o_tid order) (o_key order) (key_to_location lm),
               key_to_headersize := erase_key (o_tid order) (o_key order) (key_to_headersize lm)\<rparr>,
            if location \<noteq> 0 then mm_insert (h, location) map_index_out else map_index_out)
         else if IsFirstChunk E order then
           (if location \<noteq> 0 \<and> o_type order \<noteq> Remove
            then lm\<lparr>key_to_location :=
                       set_key (o_tid order) (o_key order) location (key_to_location lm)\<rparr>
            else lm,
            map_index_out)
         else (lm, map_index_out))"

definition WriteOrder ::
  "env \<Rightarrow> (nat \<Rightarrow> bytes) \<Rightarrow> Order \<Rightarrow> LogfileManager \<times> multimap
   \<Rightarrow> (LogfileManager \<times> multimap) option" where
  "WriteOrder E U order st =
     (case WriteOrder_prepare E (fst st) of
        None \<Rightarrow> None
      | Some lm1 \<Rightarrow>
          (case WriteOrder_dispatch E U order (HashFunction E (o_key order)) lm1 of
             None \<Rightarrow> None
           | Some (location, lm2) \<Rightarrow>
               Some (WriteOrder_finish E order (HashFunction E (o_key order)) location
                       (lm2, snd st))))"

fun WriteOrders_loop ::
  "env \<Rightarrow> (nat \<Rightarrow> bytes) \<Rightarrow> Order list \<Rightarrow> LogfileManager \<times> multimap
   \<Rightarrow> (LogfileManager \<times> multimap) option" where
  "WriteOrders_loop E U [] st = Some st"
| "WriteOrders_loop E U (order # orders) st =
     (case WriteOrder E U order st of
        None \<Rightarrow> None
      | Some st' \<Rightarrow> WriteOrders_loop E U orders st')"

definition WriteOrdersAndFlushFile ::
  "env \<Rightarrow> (nat \<Rightarrow> bytes) \<Rightarrow> Order list \<Rightarrow> multimap \<Rightarrow> LogfileManager
   \<Rightarrow> (LogfileManager \<times> multimap) option" where
  "WriteOrdersAndFlushFile E U orders map_index_out lm =
     (case WriteOrders_loop E U orders (lm, map_index_out) of
        None \<Rightarrow> None
      | Some (lm1, map_index_out') \<Rightarrow>
          (case FlushCurrentFile E False 0 lm1 of
             None \<Rightarrow> None
           | Some (fid, lm2) \<Rightarrow> Some (lm2, map_index_out')))"

section \<open>StorageEngine: compaction\<close>

subsection \<open>Step 3: which locations are kept\<close>

record selection =
  locations_delete :: "u64 set"
  fileids_compaction :: "u32 set"
  fileids_largefiles_keep :: "u32 set"
  keys_encountered :: "bytes set"
  locations_regular_keep :: multimap
  locations_large_keep :: multimap

definition selection0 :: selection where
  "selection0 = \<lparr>locations_delete = {}, fileids_compaction = {}, fileids_largefiles_keep = {},
     keys_encountered = {}, locations_regular_keep = [], locations_large_keep = []\<rparr>"

text \<open>
  One iteration of the loop over the reversed vector \<^verbatim>\<open>index_compaction_se\<close>. A
  location whose file id is greater than \<^verbatim>\<open>fileid_end\<close> is skipped before anything is
  read. The key is read from \<^verbatim>\<open>GetEntry\<close>; where that has no result or leaves the key
  unassigned the iteration has no defined behaviour (\<open>None\<close>).
\<close>

definition select_step ::
  "env \<Rightarrow> LogfileManager \<Rightarrow> u32 \<Rightarrow> u64 \<times> u64 \<Rightarrow> selection \<Rightarrow> selection option" where
  "select_step E lm fileid_end p sel =
     (let location = snd p; fid = fileid_of location
      in if fid > fileid_end then Some sel
         else
           let sel1 = sel\<lparr>fileids_compaction := insert fid (fileids_compaction sel)\<rparr>
           in case GetEntry E lm location of
                None \<Rightarrow> None
              | Some (s, None, v) \<Rightarrow> None
              | Some (s, Some str_key, v) \<Rightarrow>
                  if str_key \<notin> keys_encountered sel1 then
                    let sel2 = sel1\<lparr>keys_encountered := insert str_key (keys_encountered sel1)\<rparr>
                    in if IsFileLarge lm fid then
                         Some (sel2\<lparr>locations_large_keep := mm_insert p (locations_large_keep sel2),
                                    fileids_largefiles_keep := insert fid (fileids_largefiles_keep sel2)\<rparr>)
                       else if \<not> IsRemoveOrder s then
                         Some (sel2\<lparr>locations_regular_keep := mm_insert p (locations_regular_keep sel2)\<rparr>)
                       else
                         Some (sel2\<lparr>locations_delete := insert location (locations_delete sel2)\<rparr>)
                  else
                    Some (sel1\<lparr>locations_delete := insert location (locations_delete sel1)\<rparr>))"

fun select_loop ::
  "env \<Rightarrow> LogfileManager \<Rightarrow> u32 \<Rightarrow> (u64 \<times> u64) list \<Rightarrow> selection \<Rightarrow> selection option" where
  "select_loop E lm fileid_end [] sel = Some sel"
| "select_loop E lm fileid_end (p # ps) sel =
     (case select_step E lm fileid_end p sel of
        None \<Rightarrow> None
      | Some sel' \<Rightarrow> select_loop E lm fileid_end ps sel')"

definition select_locations ::
  "env \<Rightarrow> LogfileManager \<Rightarrow> u32 \<Rightarrow> (u64 \<times> u64) list \<Rightarrow> selection option" where
  "select_locations E lm fileid_end index_compaction_se =
     select_loop E lm fileid_end (rev index_compaction_se) selection0"

text \<open>
  What the loop computes, stated position by position. The candidates that the loop does
  not skip are listed most recent first; position \<open>i\<close> holds the first occurrence of its
  key when no earlier position holds an entry with the same key.
\<close>

definition in_range_candidates :: "u32 \<Rightarrow> (u64 \<times> u64) list \<Rightarrow> (u64 \<times> u64) list" where
  "in_range_candidates fileid_end index_compaction_se =
     filter (\<lambda>p. \<not> fileid_of (snd p) > fileid_end) (rev index_compaction_se)"

definition first_occurrence :: "env \<Rightarrow> LogfileManager \<Rightarrow> (u64 \<times> u64) list \<Rightarrow> nat \<Rightarrow> bool" where
  "first_occurrence E lm cs i =
     (key_at E lm (snd (cs ! i)) \<notin> set (map (\<lambda>p. key_at E lm (snd p)) (take i cs)))"

definition in_large_file :: "LogfileManager \<Rightarrow> (u64 \<times> u64) list \<Rightarrow> nat \<Rightarrow> bool" where
  "in_large_file lm cs i = IsFileLarge lm (fileid_of (snd (cs ! i)))"

definition is_remove :: "env \<Rightarrow> LogfileManager \<Rightarrow> (u64 \<times> u64) list \<Rightarrow> nat \<Rightarrow> bool" where
  "is_remove E lm cs i = is_remove_at E lm (snd (cs ! i))"

definition positions_where :: "(nat \<Rightarrow> bool) \<Rightarrow> 'a list \<Rightarrow> 'a list" where
  "positions_where Q cs = map (\<lambda>i. cs ! i) (filter Q [0..<length cs])"

definition marks_delete :: "env \<Rightarrow> LogfileManager \<Rightarrow> (u64 \<times> u64) list \<Rightarrow> nat \<Rightarrow> bool" where
  "marks_delete E lm cs i = (\<not> first_occurrence E lm cs i \<or> is_remove E lm cs i)"

definition keeps_regular :: "env \<Rightarrow> LogfileManager \<Rightarrow> (u64 \<times> u64) list \<Rightarrow> nat \<Rightarrow> bool" where
  "keeps_regular E lm cs i =
     (first_occurrence E lm cs i \<and> \<not> in_large_file lm cs i \<and> \<not> is_remove E lm cs i)"

definition keeps_large :: "env \<Rightarrow> LogfileManager \<Rightarrow> (u64 \<times> u64) list \<Rightarrow> nat \<Rightarrow> bool" where
  "keeps_large E lm cs i = (first_occurrence E lm cs i \<and> in_large_file lm cs i)"

definition keys_of :: "env \<Rightarrow> LogfileManager \<Rightarrow> (u64 \<times> u64) list \<Rightarrow> bytes set" where
  "keys_of E lm cs = {k. Some k \<in> (\<lambda>p. key_at E lm (snd p)) ` set cs}"

definition selected :: "env \<Rightarrow> LogfileManager \<Rightarrow> (u64 \<times> u64) list \<Rightarrow> selection" where
  "selected E lm cs =
     \<lparr>locations_delete = snd ` set (positions_where (marks_delete E lm cs) cs),
      fileids_compaction = (\<lambda>p. fileid_of (snd p)) ` set cs,
      fileids_largefiles_keep =
        (\<lambda>p. fileid_of (snd p)) ` set (positions_where (keeps_large E lm cs) cs),
      keys_encountered = keys_of E lm cs,
      locations_regular_keep = positions_where (keeps_regular E lm cs) cs,
      locations_large_keep = positions_where (keeps_large E lm cs) cs\<rparr>"

subsection \<open>Step 12: merging the compacted locations into the index\<close>

text \<open>
  One iteration of the loop over the distinct hashed keys of \<^verbatim>\<open>map_index_shifted\<close>,
  and the loop. The write lock taken every ten iterations has no effect on the values.
\<close>

definition merge_bucket :: "u32 \<Rightarrow> multimap \<Rightarrow> u64 \<Rightarrow> multimap \<Rightarrow> multimap" where
  "merge_bucket fileid_end map_index_shifted hashedkey index =
     (let range_index = equal_range index hashedkey;
          locations_after = map snd (filter (\<lambda>p. fileid_of (snd p) > fileid_end) range_index);
          index1 = mm_erase hashedkey index;
          index2 = mm_insert_range (equal_range map_index_shifted hashedkey) index1
      in foldl (\<lambda>acc location. mm_insert (hashedkey, location) acc) index2 locations_after)"

definition merge_index :: "u32 \<Rightarrow> multimap \<Rightarrow> multimap \<Rightarrow> multimap" where
  "merge_index fileid_end map_index_shifted index =
     foldl (\<lambda>acc hashedkey. merge_bucket fileid_end map_index_shifted hashedkey acc)
       index (mm_keys map_index_shifted)"

section \<open>Evaluation on concrete inputs\<close>

subsection \<open>A concrete instance of the parameters\<close>

text \<open>
  To evaluate the model on concrete files the parameters are instantiated: fixed-width
  fields are little-endian, a file type is the byte 1, 2 or 3, the sizes of an entry header
  take one byte each, the checksum is the sum of the bytes and the hash of a key is the
  little-endian number it spells.
\<close>

fun le_encode :: "nat \<Rightarrow> nat \<Rightarrow> bytes" where
  "le_encode 0 v = []"
| "le_encode (Suc n) v = of_nat (v mod 256) # le_encode n (v div 256)"

fun le_decode :: "bytes \<Rightarrow> nat" where
  "le_decode [] = 0"
| "le_decode (b # bs) = unat b + 256 * le_decode bs"

definition demo_filetype_byte :: "FileType \<Rightarrow> byte" where
  "demo_filetype_byte ft =
     (case ft of kUncompactedLogType \<Rightarrow> 1 | kCompactedLogType \<Rightarrow> 2 | kCompactedLargeType \<Rightarrow> 3)"

definition demo_filetype_of :: "byte \<Rightarrow> FileType option" where
  "demo_filetype_of b =
     (if b = 1 then Some kUncompactedLogType else if b = 2 then Some kCompactedLogType
      else if b = 3 then Some kCompactedLargeType else None)"

definition demo_flag :: "bool \<Rightarrow> byte \<Rightarrow> byte" where
  "demo_flag b v = (if b then v else 0)"

definition demo_Entry_EncodeTo :: "Entry \<Rightarrow> bytes" where
  "demo_Entry_EncodeTo e =
     le_encode 4 (unat (e_crc32 e))
     @ [demo_flag (e_type e = Remove) 1 + demo_flag (e_full e) 2 + demo_flag (e_has_padding e) 4,
        of_nat (e_size_key e), of_nat (e_size_value e), of_nat (e_size_value_compressed e)]
     @ le_encode 8 (unat (e_hash e))"

definition demo_Entry_DecodeFrom :: "bytes \<Rightarrow> (Entry \<times> nat) option" where
  "demo_Entry_DecodeFrom bs =
     (if length bs < 16 then None
      else Some (\<lparr>e_type = (if bit (bs ! 4) 0 then Remove else Put),
                  e_full = bit (bs ! 4) 1,
                  e_size_key = unat (bs ! 5),
                  e_size_value = unat (bs ! 6),
                  e_size_value_compressed = unat (bs ! 7),
                  e_hash = of_nat (le_decode (take 8 (drop 8 bs))),
                  e_crc32 = of_nat (le_decode (take 4 bs)),
                  e_has_padding = bit (bs ! 4) 2\<rparr>, 16))"

definition demo_LogFileHeader_EncodeTo :: "LogFileHeader \<Rightarrow> bytes" where
  "demo_LogFileHeader_EncodeTo h =
     demo_filetype_byte (h_filetype h) # le_encode 8 (unat (h_timestamp h))"

definition demo_LogFileHeader_DecodeFrom :: "bytes \<Rightarrow> LogFileHeader option" where
  "demo_LogFileHeader_DecodeFrom bs =
     (if length bs < 9 then None
      else case demo_filetype_of (bs ! 0) of
             None \<Rightarrow> None
           | Some ft \<Rightarrow> Some \<lparr>h_filetype = ft, h_timestamp = of_nat (le_decode (take 8 (drop 1 bs)))\<rparr>)"

definition demo_LogFileFooterIndex_EncodeTo :: "LogFileFooterIndex \<Rightarrow> bytes" where
  "demo_LogFileFooterIndex_EncodeTo x =
     le_encode 8 (unat (hashed_key x)) @ le_encode 4 (unat (offset_entry x))"

definition demo_LogFileFooterIndex_DecodeFrom :: "bytes \<Rightarrow> (LogFileFooterIndex \<times> nat) option" where
  "demo_LogFileFooterIndex_DecodeFrom bs =
     (if length bs < 12 then None
      else Some (\<lparr>hashed_key = of_nat (le_decode (take 8 bs)),
                  offset_entry = of_nat (le_decode (take 4 (drop 8 bs)))\<rparr>, 12))"

definition demo_LogFileFooter_EncodeTo :: "LogFileFooter \<Rightarrow> bytes" where
  "demo_LogFileFooter_EncodeTo f =
     [demo_filetype_byte (f_filetype f),
      demo_flag (f_has_padding_in_values f) 1 + demo_flag (f_has_invalid_entries f) 2]
     @ le_encode 8 (unat (f_offset_indexes f))
     @ le_encode 8 (unat (f_num_entries f))
     @ le_encode 8 (unat (f_magic_number f))
     @ le_encode 4 (unat (f_crc32 f))"

definition demo_LogFileFooter_DecodeFrom :: "bytes \<Rightarrow> LogFileFooter option" where
  "demo_LogFileFooter_DecodeFrom bs =
     (if length bs < 30 then None
      else case demo_filetype_of (bs ! 0) of
             None \<Rightarrow> None
           | Some ft \<Rightarrow>
               Some \<lparr>f_filetype = ft,
                     f_has_padding_in_values = bit (bs ! 1) 0,
                     f_has_invalid_entries = bit (bs ! 1) 1,
                     f_offset_indexes = of_nat (le_decode (take 8 (drop 2 bs))),
                     f_num_entries = of_nat (le_decode (take 8 (drop 10 bs))),
                     f_magic_number = of_nat (le_decode (take 8 (drop 18 bs))),
                     f_crc32 = of_nat (le_decode (take 4 (drop 26 bs)))\<rparr>)"

definition demo_checksum :: "bytes \<Rightarrow> u32" where
  "demo_checksum bs = of_nat (sum_list (map unat bs))"

definition demo_IsLastChunk :: "Order \<Rightarrow> bool" where
  "demo_IsLastChunk ord =
     (length (o_chunk ord) + o_offset_chunk ord
        = (if o_size_value_compressed ord = 0 then o_size_value ord
           else o_size_value_compressed ord))"

definition demo_env :: env where
  "demo_env =
     \<lparr>SIZE_LOGFILE_HEADER = 12, SIZE_LOGFILE_TOTAL = 64, sizeof_Entry = 16,
      HashFunction = (\<lambda>key. of_nat (le_decode key)),
      IsFirstChunk = (\<lambda>ord. o_offset_chunk ord = 0),
      IsLastChunk = demo_IsLastChunk,
      IsCompressed = (\<lambda>e. e_size_value_compressed e \<noteq> 0),
      IsTypeLarge = (\<lambda>ft. ft = kCompactedLargeType),
      IsTypeCompacted = (\<lambda>ft. ft \<noteq> kUncompactedLogType),
      Entry_EncodeTo = demo_Entry_EncodeTo,
      Entry_DecodeFrom = demo_Entry_DecodeFrom,
      LogFileHeader_EncodeTo = demo_LogFileHeader_EncodeTo,
      LogFileHeader_DecodeFrom = demo_LogFileHeader_DecodeFrom,
      LogFileFooterIndex_EncodeTo = demo_LogFileFooterIndex_EncodeTo,
      LogFileFooterIndex_DecodeFrom = demo_LogFileFooterIndex_DecodeFrom,
      LogFileFooter_GetFixedSize = 30,
      LogFileFooter_EncodeTo = demo_LogFileFooter_EncodeTo,
      LogFileFooter_DecodeFrom = demo_LogFileFooter_DecodeFrom,
      EncodeFixed32 = (\<lambda>c. le_encode 4 (unat c)),
      crc32c_Value = demo_checksum,
      crc32c_Combine = (\<lambda>a b n. a + b),
      CRC32_stream = demo_checksum\<rparr>"

text \<open>An entry as it lies in a file: the header with its checksum, the key, the value.\<close>

definition demo_entry :: "OrderType \<Rightarrow> bytes \<Rightarrow> bytes \<Rightarrow> bytes" where
  "demo_entry ty key val =
     (let e = \<lparr>e_type = ty, e_full = True, e_size_key = length key, e_size_value = length val,
                e_size_value_compressed = 0, e_hash = of_nat (le_decode key), e_crc32 = 0,
                e_has_padding = False\<rparr>;
          c = demo_checksum (drop 4 (demo_Entry_EncodeTo e) @ key @ val)
      in demo_Entry_EncodeTo (e\<lparr>e_crc32 := c\<rparr>) @ key @ val)"

subsection \<open>Three files and an index\<close>

text \<open>
  File 1 is a log file with a Put of key \<open>[1]\<close>, a Put of key \<open>[1, 0]\<close> (which has the
  same hash) and a Remove of key \<open>[1]\<close>; file 3 is a large file with one Put; file 6 is a
  log file with a Remove of key \<open>[1, 0]\<close>.
\<close>

definition demo_header :: "FileType \<Rightarrow> u64 \<Rightarrow> bytes" where
  "demo_header ft ts = demo_LogFileHeader_EncodeTo \<lparr>h_filetype = ft, h_timestamp = ts\<rparr> @ [0, 0, 0]"

definition demo_file1 :: bytes where
  "demo_file1 = demo_header kUncompactedLogType 1
     @ demo_entry Put [1] [7, 8] @ demo_entry Put [1, 0] [9] @ demo_entry Remove [1] []"

definition demo_file3 :: bytes where
  "demo_file3 = demo_header kCompactedLargeType 2 @ demo_entry Put [3] [4]"

definition demo_file6 :: bytes where
  "demo_file6 = demo_header kUncompactedLogType 3 @ demo_entry Remove [1, 0] []"

definition demo_manager :: LogfileManager where
  "demo_manager = (manager0 kUncompactedLogType)
     \<lparr>files := [1 \<mapsto> demo_file1, 3 \<mapsto> demo_file3, 6 \<mapsto> demo_file6],
      filesizes := [1 \<mapsto> 67, 3 \<mapsto> 30, 6 \<mapsto> 30],
      largefiles := {3}\<rparr>"

definition demo_index :: multimap where
  "demo_index = [(1, 0x10000000C), (1, 0x10000001F), (1, 0x100000032), (3, 0x30000000C),
                 (1, 0x60000000C)]"




text \<open>
  An uninitialised buffer filled with zero bytes, a manager with an active file, and a chunk
  of an entry whose first chunk was never written.
\<close>

definition demo_U :: "nat \<Rightarrow> bytes" where
  "demo_U n = replicate n 0"

definition demo_active :: LogfileManager where
  "demo_active = (manager0 kUncompactedLogType)
     \<lparr>buffer_raw := replicate 128 0, has_file := True, fileid := 1, sequence_fileid := 1,
      timestamp := 1, sequence_timestamp := 1, offset_end := 12,
      files := [1 \<mapsto> []]\<rparr>"

definition demo_orphan :: Order where
  "demo_orphan = \<lparr>o_tid = 0, o_type = Put, o_key = [5], o_chunk = [9], o_offset_chunk = 3,
                   o_size_value = 4, o_size_value_compressed = 0, o_crc32 = 0\<rparr>"


section \<open>The timestamp lock\<close>

lemma run_ts_call_locked:
  "is_locked_sequence_timestamp s \<Longrightarrow>
   run_ts_call c s = (returns_of (sequence_timestamp s) c, s)"
  by (cases c) (simp_all add: SetSequenceTimestamp_def IncrementSequenceTimestamp_def)

lemma run_ts_calls_locked:
  "is_locked_sequence_timestamp s \<Longrightarrow>
   run_ts_calls cs s = (map (returns_of (sequence_timestamp s)) cs, s)"
  by (induction cs) (simp_all add: run_ts_call_locked)

text \<open>
  Claim C9. After \<^verbatim>\<open>LockSequenceTimestamp(seq)\<close> the sequence timestamp is \<open>seq\<close>; every
  later sequence of \<^verbatim>\<open>SetSequenceTimestamp\<close> and \<^verbatim>\<open>IncrementSequenceTimestamp\<close> calls
  leaves the manager as it is, and each \<^verbatim>\<open>IncrementSequenceTimestamp\<close> among them returns
  \<open>seq\<close> (\<^verbatim>\<open>SetSequenceTimestamp\<close> has no return value). On a manager that is not locked
  the two calls do change the timestamp: Set stores its (32-bit) argument, Increment adds.
\<close>

theorem C9_lock_sequence_timestamp:
  "GetSequenceTimestamp (LockSequenceTimestamp seq s) = seq
   \<and> run_ts_calls cs (LockSequenceTimestamp seq s)
       = (map (returns_of seq) cs, LockSequenceTimestamp seq s)
   \<and> GetSequenceTimestamp (snd (run_ts_calls cs (LockSequenceTimestamp seq s))) = seq
   \<and> (\<not> is_locked_sequence_timestamp s \<longrightarrow>
        GetSequenceTimestamp (SetSequenceTimestamp v s) = ucast v
        \<and> IncrementSequenceTimestamp inc s
            = (sequence_timestamp s + inc, s\<lparr>sequence_timestamp := sequence_timestamp s + inc\<rparr>))"
proof -
  let ?l = "LockSequenceTimestamp seq s"
  have locked: "is_locked_sequence_timestamp ?l" and ts: "sequence_timestamp ?l = seq"
    by (simp_all add: LockSequenceTimestamp_def)
  have run: "run_ts_calls cs ?l = (map (returns_of seq) cs, ?l)"
    using run_ts_calls_locked [OF locked, of cs] ts by simp
  show ?thesis
    using run ts
    by (simp add: GetSequenceTimestamp_def SetSequenceTimestamp_def
        IncrementSequenceTimestamp_def)
qed

theorem C9_lock_sequence_timestamp_witness:
  "run_ts_calls [CallSet 7, CallIncrement 1, CallIncrement 5]
     (LockSequenceTimestamp 42 (manager0 kCompactedLogType))
     = ([None, Some 42, Some 42], LockSequenceTimestamp 42 (manager0 kCompactedLogType))
   \<and> \<not> is_locked_sequence_timestamp (manager0 kCompactedLogType)
   \<and> GetSequenceTimestamp (SetSequenceTimestamp 7 (manager0 kCompactedLogType)) = 7
   \<and> fst (IncrementSequenceTimestamp 5 (manager0 kCompactedLogType)) = 5"
  using C9_lock_sequence_timestamp
    [of 42 "manager0 kCompactedLogType" "[CallSet 7, CallIncrement 1, CallIncrement 5]" 7 5]
  by (simp add: manager0_def)


section \<open>The concrete files\<close>

lemma demo_file1_bytes:
  "demo_file1 = [1, 1, 0, 0, 0, 0, 0, 0, 0, 0, 0, 0,
                 22, 0, 0, 0, 2, 1, 2, 0, 1, 0, 0, 0, 0, 0, 0, 0, 1, 7, 8,
                 16, 0, 0, 0, 2, 2, 1, 0, 1, 0, 0, 0, 0, 0, 0, 0, 1, 0, 9,
                 6, 0, 0, 0, 3, 1, 0, 0, 1, 0, 0, 0, 0, 0, 0, 0, 1]"
  by code_simp

lemma demo_file3_bytes:
  "demo_file3 = [3, 2, 0, 0, 0, 0, 0, 0, 0, 0, 0, 0,
                 14, 0, 0, 0, 2, 1, 1, 0, 3, 0, 0, 0, 0, 0, 0, 0, 3, 4]"
  by code_simp

lemma demo_file6_bytes:
  "demo_file6 = [1, 3, 0, 0, 0, 0, 0, 0, 0, 0, 0, 0,
                 7, 0, 0, 0, 3, 2, 0, 0, 1, 0, 0, 0, 0, 0, 0, 0, 1, 0]"
  by code_simp

section \<open>Lookup\<close>

lemma GetEntry_key_cases:
  assumes "key_at E lm location = Some k"
  shows "(GetEntry E lm location = Some (RemoveOrder, Some k, None) \<and> is_remove_at E lm location)
       \<or> (\<exists>v. GetEntry E lm location = Some (OK, Some k, Some v) \<and> \<not> is_remove_at E lm location)"
proof -
  from assms obtain s v where g: "GetEntry E lm location = Some (s, Some k, v)"
    by (auto simp: key_at_def split: option.splits)
  then have "(s = RemoveOrder \<and> v = None) \<or> (s = OK \<and> v \<noteq> None)"
    by (auto simp: GetEntry_def Let_def split: option.splits if_splits prod.splits)
  then show ?thesis
    using g by (auto simp: is_remove_at_def IsRemoveOrder_def)
qed

text \<open>
  Claim C1 fails on the code. The claim is what the loop is written for (the comment at
  lines 1218-1219 relies on the insertion order within a bucket), but the loop ends at
  \<^verbatim>\<open>--range.first\<close>, which is not defined when the bucket is the first of the index. With
  one pair in the index, for a Put of key \<open>[1, 0]\<close> with a stored value, the lookup of that
  key has no defined result, where the claim asks for the value at that location.
\<close>

theorem C1_get_with_index_failing_input:
  "equal_range [(1, 0x10000001F)] (HashFunction demo_env [1, 0]) = [(1, 0x10000001F)]
   \<and> range_first_is_begin [(1, 0x10000001F)] (HashFunction demo_env [1, 0])
   \<and> GetEntry demo_env demo_manager 0x10000001F
       = Some (OK, Some [1, 0],
               Some \<lparr>vv_offset = 49, vv_size = 1, vv_size_compressed = 0, vv_crc32 = 16,
                     vv_initial_crc32 = 7\<rparr>)
   \<and> GetWithIndex demo_env demo_manager [(1, 0x10000001F)] [1, 0] = None"
  by code_simp

lemma GetWithIndex_loop_find:
  "GetWithIndex_loop E lm key ls =
     (case find (\<lambda>location. key_at E lm location = None \<or> key_at E lm location = Some key) ls of
        None \<Rightarrow> Some (NotFound ''Unable to find the entry in the storage engine'', None, None)
      | Some location \<Rightarrow>
          if key_at E lm location = None then None
          else if is_remove_at E lm location
          then Some (NotFound ''Unable to find the entry in the storage engine (remove order)'',
                     None, Some location)
          else Some (OK, value_at E lm location, Some location))"
proof (induction ls)
  case Nil
  then show ?case by simp
next
  case (Cons l ls)
  show ?case
  proof (cases "key_at E lm l")
    case None
    then show ?thesis
      by (auto simp: key_at_def split: option.splits)
  next
    case (Some k)
    from GetEntry_key_cases [OF Some] Cons show ?thesis
      by (auto simp: Some value_at_def IsRemoveOrder_def)
  qed
qed

section \<open>Compaction: merging into the index\<close>

lemma equal_range_insert:
  "equal_range (mm_insert p m) k = (if fst p = k then equal_range m k @ [p] else equal_range m k)"
  by (simp add: equal_range_def mm_insert_def)

lemma equal_range_erase:
  "equal_range (mm_erase h m) k = (if k = h then [] else equal_range m k)"
  by (induction m) (auto simp: equal_range_def mm_erase_def)

lemma equal_range_insert_range:
  "equal_range (mm_insert_range ps m) k = equal_range m k @ filter (\<lambda>p. fst p = k) ps"
proof -
  have "equal_range (foldl (\<lambda>acc p. mm_insert p acc) m ps) k
          = equal_range m k @ filter (\<lambda>p. fst p = k) ps" for m
    by (induction ps arbitrary: m) (simp_all add: equal_range_insert)
  then show ?thesis by (simp add: mm_insert_range_def)
qed

lemma equal_range_insert_locations:
  "equal_range (foldl (\<lambda>acc location. mm_insert (h, location) acc) m ls) k
     = equal_range m k @ (if k = h then map (Pair h) ls else [])"
  by (induction ls arbitrary: m) (simp_all add: equal_range_insert)

lemma filter_fst_equal_range:
  "filter (\<lambda>p. fst p = k) (equal_range m h) = (if k = h then equal_range m h else [])"
  by (induction m) (auto simp: equal_range_def)

lemma map_Pair_snd_bucket:
  "map (Pair h \<circ> snd) (filter P (equal_range m h)) = filter P (equal_range m h)"
  by (induction m) (auto simp: equal_range_def)

lemma equal_range_merge_bucket:
  "equal_range (merge_bucket fe sh h index) k =
     (if k = h
      then equal_range sh h @ filter (\<lambda>p. fileid_of (snd p) > fe) (equal_range index h)
      else equal_range index k)"
  by (simp add: merge_bucket_def Let_def equal_range_insert_locations equal_range_insert_range
      equal_range_erase filter_fst_equal_range map_Pair_snd_bucket)

lemma equal_range_merge_fold:
  "distinct hs \<Longrightarrow>
   equal_range (foldl (\<lambda>acc h. merge_bucket fe sh h acc) index hs) k =
     (if k \<in> set hs
      then equal_range sh k @ filter (\<lambda>p. fileid_of (snd p) > fe) (equal_range index k)
      else equal_range index k)"
proof (induction hs arbitrary: index)
  case Nil
  then show ?case by simp
next
  case (Cons h hs)
  then show ?case by (auto simp: equal_range_merge_bucket)
qed

lemma distinct_mm_keys: "distinct (mm_keys m)"
  by (simp add: mm_keys_def)

lemma set_mm_keys: "set (mm_keys m) = fst ` set m"
  by (simp add: mm_keys_def)


text \<open>
  Claim C5. For a hashed key present in the shifted update map, the bucket of \<^verbatim>\<open>index_\<close>
  after the merge is the compacted locations of that key, in their order, followed by
  exactly those former locations of the bucket whose file id is greater than
  \<^verbatim>\<open>fileid_end\<close>, in their order; a bucket whose key is not in the update map is
  unchanged. Hence every location with a file id beyond \<^verbatim>\<open>fileid_end\<close> is still in its
  bucket and comes later in insertion order than every compacted location of the same
  hashed key, so that the newest-first lookup meets it first.
\<close>

theorem C5_merge_index:
  "equal_range (merge_index fileid_end map_index_shifted index) h =
     (if h \<in> fst ` set map_index_shifted
      then equal_range map_index_shifted h
           @ filter (\<lambda>p. fileid_of (snd p) > fileid_end) (equal_range index h)
      else equal_range index h)
   \<and> (h \<in> fst ` set map_index_shifted \<longrightarrow>
        rev (map snd (equal_range (merge_index fileid_end map_index_shifted index) h))
          = rev (map snd (filter (\<lambda>p. fileid_of (snd p) > fileid_end) (equal_range index h)))
            @ rev (map snd (equal_range map_index_shifted h)))
   \<and> (\<forall>p \<in> set (equal_range index h). fileid_of (snd p) > fileid_end \<longrightarrow>
         p \<in> set (equal_range (merge_index fileid_end map_index_shifted index) h))"
proof -
  have eq: "equal_range (merge_index fileid_end map_index_shifted index) h =
     (if h \<in> fst ` set map_index_shifted
      then equal_range map_index_shifted h
           @ filter (\<lambda>p. fileid_of (snd p) > fileid_end) (equal_range index h)
      else equal_range index h)"
    unfolding merge_index_def
    by (simp add: equal_range_merge_fold [OF distinct_mm_keys] set_mm_keys)
  show ?thesis
    by (simp add: eq)
qed


theorem C5_merge_index_witness:
  "1 \<in> fst ` set [(1 :: u64, 0x70000000C :: u64)]
   \<and> equal_range (merge_index 5 [(1, 0x70000000C)]
        [(1, 0x10000000C), (1, 0x20000001F), (1, 0x60000000C), (2, 0x30000000C)]) 1
       = [(1, 0x70000000C), (1, 0x60000000C)]
   \<and> equal_range (merge_index 5 [(1, 0x70000000C)]
        [(1, 0x10000000C), (1, 0x20000001F), (1, 0x60000000C), (2, 0x30000000C)]) 2
       = [(2, 0x30000000C)]"
proof -
  have f: "fileid_of 0x10000000C = 1" "fileid_of 0x20000001F = 2" "fileid_of 0x60000000C = 6"
    by (simp_all add: fileid_of_def)
  show ?thesis
    using C5_merge_index [of 5 "[(1, 0x70000000C)]"
        "[(1, 0x10000000C), (1, 0x20000001F), (1, 0x60000000C), (2, 0x30000000C)]" 1]
      C5_merge_index [of 5 "[(1, 0x70000000C)]"
        "[(1, 0x10000000C), (1, 0x20000001F), (1, 0x60000000C), (2, 0x30000000C)]" 2]
    by (simp add: equal_range_def f)
qed

section \<open>Compaction: selecting the locations to keep\<close>

lemma positions_where_snoc:
  assumes "\<And>i. i < length cs \<Longrightarrow> Q' i = Q i"
  shows "positions_where Q' (cs @ [p]) = positions_where Q cs @ (if Q' (length cs) then [p] else [])"
proof -
  have f: "filter Q' [0..<length cs] = filter Q [0..<length cs]"
    using assms by (intro filter_cong) auto
  have m: "map (\<lambda>i. (cs @ [p]) ! i) (filter Q [0..<length cs])
            = map (\<lambda>i. cs ! i) (filter Q [0..<length cs])"
    by (intro map_cong) (auto simp: nth_append)
  show ?thesis
    by (simp add: positions_where_def f m)
qed

lemma first_occurrence_snoc_old:
  "i < length cs \<Longrightarrow> first_occurrence E lm (cs @ [p]) i = first_occurrence E lm cs i"
  by (simp add: first_occurrence_def nth_append)

lemma first_occurrence_snoc_new:
  "first_occurrence E lm (cs @ [p]) (length cs)
     = (key_at E lm (snd p) \<notin> (\<lambda>q. key_at E lm (snd q)) ` set cs)"
  by (simp add: first_occurrence_def)

lemma select_loop_snoc:
  "select_loop E lm fe (ps @ [p]) sel =
     (case select_loop E lm fe ps sel of None \<Rightarrow> None | Some sel' \<Rightarrow> select_step E lm fe p sel')"
  by (induction ps arbitrary: sel) (auto split: option.splits)

lemma select_step_selected:
  assumes inr: "\<not> fileid_of (snd p) > fe" and key: "key_at E lm (snd p) = Some k"
    and lr: "IsFileLarge lm (fileid_of (snd p)) \<longrightarrow> \<not> is_remove_at E lm (snd p)"
  shows "select_step E lm fe p (selected E lm cs) = Some (selected E lm (cs @ [p]))"
proof -
  let ?first = "key_at E lm (snd p) \<notin> (\<lambda>q. key_at E lm (snd q)) ` set cs"
  let ?large = "IsFileLarge lm (fileid_of (snd p))"
  let ?remove = "is_remove_at E lm (snd p)"
  have seen: "(k \<notin> keys_encountered (selected E lm cs)) = ?first"
    using key by (simp add: selected_def keys_of_def)
  have old: "\<And>i. i < length cs \<Longrightarrow>
      first_occurrence E lm (cs @ [p]) i = first_occurrence E lm cs i
      \<and> in_large_file lm (cs @ [p]) i = in_large_file lm cs i
      \<and> is_remove E lm (cs @ [p]) i = is_remove E lm cs i"
    by (simp add: first_occurrence_snoc_old in_large_file_def is_remove_def nth_append)
  have new: "in_large_file lm (cs @ [p]) (length cs) = ?large"
      "is_remove E lm (cs @ [p]) (length cs) = ?remove"
    by (simp_all add: in_large_file_def is_remove_def)
  have P1: "positions_where (marks_delete E lm (cs @ [p])) (cs @ [p])
         = positions_where (marks_delete E lm cs) cs
           @ (if \<not> ?first \<or> ?remove then [p] else [])"
    by (subst positions_where_snoc [where Q = "marks_delete E lm cs"])
       (simp_all add: marks_delete_def old new first_occurrence_snoc_new)
  have P2: "positions_where (keeps_large E lm (cs @ [p])) (cs @ [p])
         = positions_where (keeps_large E lm cs) cs
           @ (if ?first \<and> ?large then [p] else [])"
    by (subst positions_where_snoc [where Q = "keeps_large E lm cs"])
       (simp_all add: keeps_large_def old new first_occurrence_snoc_new)
  have P3: "positions_where (keeps_regular E lm (cs @ [p])) (cs @ [p])
         = positions_where (keeps_regular E lm cs) cs
           @ (if ?first \<and> \<not> ?large \<and> \<not> ?remove then [p] else [])"
    by (subst positions_where_snoc [where Q = "keeps_regular E lm cs"])
       (simp_all add: keeps_regular_def old new first_occurrence_snoc_new)
  have K: "keys_of E lm (cs @ [p]) = insert k (keys_of E lm cs)"
    using key by (auto simp: keys_of_def)
  have K': "insert k (keys_of E lm cs) = keys_of E lm cs" if "\<not> ?first"
    using that key by (intro insert_absorb) (simp add: keys_of_def)
  from GetEntry_key_cases [OF key] obtain s v
    where g: "GetEntry E lm (snd p) = Some (s, Some k, v)" and r: "IsRemoveOrder s = ?remove"
    by (auto simp: IsRemoveOrder_def)
  show ?thesis
    unfolding select_step_def Let_def
    apply (simp only: g option.case prod.case r)
    apply (simp add: inr seen)
    apply (cases ?first; cases ?large; cases ?remove)
    using lr
           apply (simp_all add: selected_def P1 P2 P3 K K' mm_insert_def)
    done
qed

lemma select_loop_selected:
  assumes "\<forall>p \<in> set (filter (\<lambda>p. \<not> fileid_of (snd p) > fe) ps). key_at E lm (snd p) \<noteq> None"
    and "\<forall>p \<in> set (filter (\<lambda>p. \<not> fileid_of (snd p) > fe) ps).
           IsFileLarge lm (fileid_of (snd p)) \<longrightarrow> \<not> is_remove_at E lm (snd p)"
  shows "select_loop E lm fe ps (selected E lm [])
       = Some (selected E lm (filter (\<lambda>p. \<not> fileid_of (snd p) > fe) ps))"
  using assms
proof (induction ps rule: rev_induct)
  case Nil
  then show ?case by simp
next
  case (snoc p ps)
  then have IH: "select_loop E lm fe ps (selected E lm [])
       = Some (selected E lm (filter (\<lambda>p. \<not> fileid_of (snd p) > fe) ps))"
    by simp
  show ?case
  proof (cases "fileid_of (snd p) > fe")
    case True
    then show ?thesis
      by (simp add: select_loop_snoc IH select_step_def)
  next
    case False
    with snoc.prems obtain k where k: "key_at E lm (snd p) = Some k" by auto
    from False snoc.prems
    have lr: "IsFileLarge lm (fileid_of (snd p)) \<longrightarrow> \<not> is_remove_at E lm (snd p)" by auto
    from select_step_selected [OF False k lr]
    show ?thesis
      using False by (simp add: select_loop_snoc IH)
  qed
qed

lemma selected_Nil: "selected E lm [] = selection0"
  by (simp add: selected_def selection0_def positions_where_def keys_of_def)

text \<open>
  Claim C4, as stated, fails for a candidate whose file id is greater than
  \<^verbatim>\<open>fileid_end\<close>: the loop skips it (lines 1408-1412) before it looks at the key. In the
  index below the most recent candidate is a Remove of the key \<open>[1, 0]\<close> in file 6; with
  \<^verbatim>\<open>fileid_end = 5\<close> its location is not marked for deletion, its key does not count as
  seen, and the older Put of the same key in file 1 is kept as the first occurrence.
\<close>

theorem C4_beyond_fileid_end_counterexample:
  "last demo_index = (1, 0x60000000C)
   \<and> key_at demo_env demo_manager 0x60000000C = Some [1, 0]
   \<and> is_remove_at demo_env demo_manager 0x60000000C
   \<and> key_at demo_env demo_manager 0x10000001F = Some [1, 0]
   \<and> select_locations demo_env demo_manager 5 demo_index
       = Some \<lparr>locations_delete = {0x100000032, 0x10000000C}, fileids_compaction = {1, 3},
               fileids_largefiles_keep = {3}, keys_encountered = {[1], [1, 0], [3]},
               locations_regular_keep = [(1, 0x10000001F)],
               locations_large_keep = [(3, 0x30000000C)]\<rparr>
   \<and> 0x60000000C \<notin> {0x100000032, 0x10000000C :: u64}"
  by code_simp

text \<open>
  Claim C4, amended. The candidates whose file id is at most \<^verbatim>\<open>fileid_end\<close> are traversed
  most recent first, and the set of the keys seen among them is maintained; a candidate
  with a greater file id is skipped and its key does not count as seen. Among the traversed
  candidates, the first occurrence of a key goes to the regular locations that are kept
  exactly when it is a Put in a file that is not large (in a large file it goes to the large
  locations that are kept); when the first occurrence of a key is a Remove its location is
  marked for deletion; every later occurrence of a key is marked for deletion. The
  hypotheses are that every traversed candidate has a key on disk and that no traversed
  candidate is a Remove in a file flagged large (a large file is written with a single Put).
\<close>

theorem C4_select_locations:
  assumes "\<forall>p \<in> set (in_range_candidates fileid_end index_compaction_se).
             key_at E lm (snd p) \<noteq> None"
    and "\<forall>p \<in> set (in_range_candidates fileid_end index_compaction_se).
             IsFileLarge lm (fileid_of (snd p)) \<longrightarrow> \<not> is_remove_at E lm (snd p)"
  shows "select_locations E lm fileid_end index_compaction_se
           = Some (selected E lm (in_range_candidates fileid_end index_compaction_se))"
  using select_loop_selected [of fileid_end "rev index_compaction_se" E lm] assms
  by (simp add: select_locations_def in_range_candidates_def selected_Nil)

theorem C4_select_locations_witness:
  "in_range_candidates 5 demo_index
        = [(3, 0x30000000C), (1, 0x100000032), (1, 0x10000001F), (1, 0x10000000C)]
   \<and> map (\<lambda>p. key_at demo_env demo_manager (snd p)) (in_range_candidates 5 demo_index)
        = [Some [3], Some [1], Some [1, 0], Some [1]]
   \<and> map (\<lambda>p. is_remove_at demo_env demo_manager (snd p)) (in_range_candidates 5 demo_index)
        = [False, True, False, False]
   \<and> map (\<lambda>p. IsFileLarge demo_manager (fileid_of (snd p))) (in_range_candidates 5 demo_index)
        = [True, False, False, False]
   \<and> select_locations demo_env demo_manager 5 demo_index
        = Some (selected demo_env demo_manager (in_range_candidates 5 demo_index))
   \<and> selected demo_env demo_manager (in_range_candidates 5 demo_index)
        = \<lparr>locations_delete = {0x100000032, 0x10000000C}, fileids_compaction = {1, 3},
               fileids_largefiles_keep = {3}, keys_encountered = {[1], [1, 0], [3]},
               locations_regular_keep = [(1, 0x10000001F)],
               locations_large_keep = [(3, 0x30000000C)]\<rparr>"
proof -
  have h1: "\<forall>p \<in> set (in_range_candidates 5 demo_index). key_at demo_env demo_manager (snd p) \<noteq> None"
    by code_simp
  have h2: "\<forall>p \<in> set (in_range_candidates 5 demo_index).
             IsFileLarge demo_manager (fileid_of (snd p)) \<longrightarrow> \<not> is_remove_at demo_env demo_manager (snd p)"
    by code_simp
  have c: "in_range_candidates 5 demo_index
        = [(3, 0x30000000C), (1, 0x100000032), (1, 0x10000001F), (1, 0x10000000C)]"
    by code_simp
  have m: "map (\<lambda>p. key_at demo_env demo_manager (snd p)) (in_range_candidates 5 demo_index)
        = [Some [3], Some [1], Some [1, 0], Some [1]]"
     "map (\<lambda>p. is_remove_at demo_env demo_manager (snd p)) (in_range_candidates 5 demo_index)
        = [False, True, False, False]"
     "map (\<lambda>p. IsFileLarge demo_manager (fileid_of (snd p))) (in_range_candidates 5 demo_index)
        = [True, False, False, False]"
    by code_simp+
  have k: "key_at demo_env demo_manager 0x30000000C = Some [3]"
      "key_at demo_env demo_manager 0x100000032 = Some [1]"
      "key_at demo_env demo_manager 0x10000001F = Some [1, 0]"
      "key_at demo_env demo_manager 0x10000000C = Some [1]"
      "\<not> is_remove_at demo_env demo_manager 0x30000000C"
      "is_remove_at demo_env demo_manager 0x100000032"
      "\<not> is_remove_at demo_env demo_manager 0x10000001F"
      "\<not> is_remove_at demo_env demo_manager 0x10000000C"
      "fileid_of 0x30000000C = 3" "fileid_of 0x100000032 = 1"
      "fileid_of 0x10000001F = 1" "fileid_of 0x10000000C = 1"
      "largefiles demo_manager = {3}"
    by code_simp+
  have s: "selected demo_env demo_manager
             [(3, 0x30000000C), (1, 0x100000032), (1, 0x10000001F), (1, 0x10000000C)]
        = \<lparr>locations_delete = {0x100000032, 0x10000000C}, fileids_compaction = {1, 3},
               fileids_largefiles_keep = {3}, keys_encountered = {[1], [1, 0], [3]},
               locations_regular_keep = [(1, 0x10000001F)],
               locations_large_keep = [(3, 0x30000000C)]\<rparr>"
    by (auto simp: selected_def positions_where_def marks_delete_def keeps_regular_def
        keeps_large_def first_occurrence_def in_large_file_def is_remove_def keys_of_def
        IsFileLarge_def k upt_rec [of 0] upt_rec [of 1] upt_rec [of 2] upt_rec [of 3])
  show ?thesis
    using C4_select_locations [OF h1 h2] c m s by simp
qed


section \<open>The footer round trip\<close>

subsection \<open>The concrete codecs are codecs\<close>

lemma length_le_encode [simp]: "length (le_encode n v) = n"
  by (induction n arbitrary: v) simp_all

lemma le_decode_encode: "le_decode (le_encode n v) = v mod 256 ^ n"
proof (induction n arbitrary: v)
  case 0
  then show ?case by simp
next
  case (Suc n)
  have "unat (of_nat (v mod 256) :: byte) = v mod 256"
    by (simp add: unat_of_nat)
  then show ?case
    using Suc [of "v div 256"] by (simp add: mod_mult2_eq)
qed

lemma unat_lt_u64: "unat (w :: u64) < 18446744073709551616"
  using unsigned_less [of w, where 'a = nat] by simp

lemma unat_lt_u32: "unat (w :: u32) < 4294967296"
  using unsigned_less [of w, where 'a = nat] by simp

lemma pow_256_8: "(256::nat) ^ 8 = 18446744073709551616"
  by simp

lemma pow_256_4: "(256::nat) ^ 4 = 4294967296"
  by simp

lemma le_round_trip_u64 [simp]: "(of_nat (le_decode (le_encode 8 (unat (w :: u64)))) :: u64) = w"
proof -
  have "unat w mod 256 ^ 8 = unat w"
    using unat_lt_u64 [of w] by (simp only: pow_256_8 mod_less)
  then show ?thesis by (simp only: le_decode_encode of_nat_unat ucast_id)
qed

lemma le_round_trip_u32 [simp]: "(of_nat (le_decode (le_encode 4 (unat (w :: u32)))) :: u32) = w"
proof -
  have "unat w mod 256 ^ 4 = unat w"
    using unat_lt_u32 [of w] by (simp only: pow_256_4 mod_less)
  then show ?thesis by (simp only: le_decode_encode of_nat_unat ucast_id)
qed

lemma demo_filetype_round_trip [simp]: "demo_filetype_of (demo_filetype_byte ft) = Some ft"
  by (cases ft) (simp_all add: demo_filetype_of_def demo_filetype_byte_def)

lemma demo_flags_round_trip [simp]:
  "bit (demo_flag a 1 + demo_flag b 2) 0 = a"
  "bit (demo_flag a 1 + demo_flag b 2) (Suc 0) = b"
  by (cases a; cases b; simp add: demo_flag_def)+

lemma demo_footer_codec:
  "demo_LogFileFooter_DecodeFrom
     (take (30 - 4) (demo_LogFileFooter_EncodeTo f) @ le_encode 4 (unat c)) = Some (f\<lparr>f_crc32 := c\<rparr>)"
  by (cases f) (simp add: demo_LogFileFooter_DecodeFrom_def demo_LogFileFooter_EncodeTo_def)

lemma demo_footer_index_codec:
  "demo_LogFileFooterIndex_DecodeFrom (demo_LogFileFooterIndex_EncodeTo x @ rest)
     = Some (x, length (demo_LogFileFooterIndex_EncodeTo x))"
  by (cases x)
     (simp add: demo_LogFileFooterIndex_DecodeFrom_def demo_LogFileFooterIndex_EncodeTo_def)


lemma LoadFile_loop_encoded:
  assumes dec: "\<And>x rest. LogFileFooterIndex_DecodeFrom E (LogFileFooterIndex_EncodeTo E x @ rest)
                  = Some (x, length (LogFileFooterIndex_EncodeTo E x))"
  shows "LoadFile_loop E
           (pre @ concat (map (\<lambda>p. LogFileFooterIndex_EncodeTo E
                                 \<lparr>hashed_key = fst p, offset_entry = snd p\<rparr>) xs) @ rest)
           fid (length xs) (length pre) index_se
         = Some (mm_insert_range (map (index_pair fid) xs) index_se)"
proof (induction xs arbitrary: pre index_se)
  case Nil
  then show ?case by (simp add: mm_insert_range_def)
next
  case (Cons x xs)
  let ?e = "LogFileFooterIndex_EncodeTo E \<lparr>hashed_key = fst x, offset_entry = snd x\<rparr>"
  let ?tail = "concat (map (\<lambda>p. LogFileFooterIndex_EncodeTo E
                                 \<lparr>hashed_key = fst p, offset_entry = snd p\<rparr>) xs) @ rest"
  have d: "LogFileFooterIndex_DecodeFrom E (drop (length pre) (pre @ ?e @ ?tail))
             = Some (\<lparr>hashed_key = fst x, offset_entry = snd x\<rparr>, length ?e)"
    by (simp add: dec)
  have ih: "LoadFile_loop E ((pre @ ?e) @ ?tail) fid (length xs) (length (pre @ ?e))
              (mm_insert (index_pair fid x) index_se)
            = Some (mm_insert_range (map (index_pair fid) xs) (mm_insert (index_pair fid x) index_se))"
    by (rule Cons.IH)
  show ?case
    using d ih by (simp add: mm_insert_range_def index_pair_def [abs_def])
qed

lemma WriteLogIndex_shape:
  assumes fx: "\<And>f. length (LogFileFooter_EncodeTo E f) = LogFileFooter_GetFixedSize E"
    and fx4: "4 \<le> LogFileFooter_GetFixedSize E"
    and f32: "\<And>c. length (EncodeFixed32 E c) = 4"
    and cap: "length (concat (map (\<lambda>p. LogFileFooterIndex_EncodeTo E
                 \<lparr>hashed_key = fst p, offset_entry = snd p\<rparr>) logindex))
              + LogFileFooter_GetFixedSize E \<le> 2 * SIZE_LOGFILE_TOTAL E"
  shows "WriteLogIndex E content logindex ft hp hi =
     (let index_bytes = concat (map (\<lambda>p. LogFileFooterIndex_EncodeTo E
                                   \<lparr>hashed_key = fst p, offset_entry = snd p\<rparr>) logindex);
          footer = \<lparr>f_filetype = ft, f_has_padding_in_values = hp, f_has_invalid_entries = hi,
                    f_offset_indexes = of_nat (length content),
                    f_num_entries = of_nat (length logindex),
                    f_magic_number = get_magic_number, f_crc32 = 0\<rparr>;
          body = index_bytes @ take (LogFileFooter_GetFixedSize E - 4) (LogFileFooter_EncodeTo E footer)
      in Some (content @ body @ EncodeFixed32 E (crc32c_Value E body),
          length index_bytes + LogFileFooter_GetFixedSize E))"
  using fx4 cap
  by (simp add: WriteLogIndex_def Let_def write_at_def fx f32)

text \<open>
  Claim C8. Let \<^verbatim>\<open>WriteLogIndex\<close> append the footer region (the encoded pairs, then the
  fixed footer whose last four bytes are the checksum of the region before them) to a file.
  Then the fixed footer at the end of the file decodes to the footer that was written, with
  \<^verbatim>\<open>num_entries\<close> the number of pairs, \<^verbatim>\<open>offset_indexes\<close> the start of the region and the
  checksum of the region without its last four bytes, which is the checksum that
  \<^verbatim>\<open>LoadFile\<close> recomputes; \<^verbatim>\<open>LoadFile\<close> accepts the file and inserts the pairs, in their
  order, with the file id in the high half of the location. The codecs are parameters;
  the hypotheses say that they are codecs: the fixed footer has its fixed size, of which
  the last four bytes are the checksum field, and a decoder inverts its encoder. The
  region fits \<^verbatim>\<open>buffer_index_\<close>, the size of the file fits 64 bits and the number of
  pairs fits the \<^verbatim>\<open>int\<close> counter of the loop of \<^verbatim>\<open>LoadFile\<close>.
\<close>

theorem C8_footer_round_trip:
  assumes fx: "\<forall>f. length (LogFileFooter_EncodeTo E f) = LogFileFooter_GetFixedSize E"
    and fx4: "4 \<le> LogFileFooter_GetFixedSize E"
    and f32: "\<forall>c. length (EncodeFixed32 E c) = 4"
    and decf: "\<forall>f c. LogFileFooter_DecodeFrom E
                 (take (LogFileFooter_GetFixedSize E - 4) (LogFileFooter_EncodeTo E f)
                  @ EncodeFixed32 E c) = Some (f\<lparr>f_crc32 := c\<rparr>)"
    and deci: "\<forall>x rest. LogFileFooterIndex_DecodeFrom E (LogFileFooterIndex_EncodeTo E x @ rest)
                 = Some (x, length (LogFileFooterIndex_EncodeTo E x))"
    and cap: "length (concat (map (\<lambda>p. LogFileFooterIndex_EncodeTo E
                 \<lparr>hashed_key = fst p, offset_entry = snd p\<rparr>) logindex))
              + LogFileFooter_GetFixedSize E \<le> 2 * SIZE_LOGFILE_TOTAL E"
    and n1: "length content < 2 ^ 64"
    and n2: "length logindex < 2 ^ 31"
  shows "\<exists>file size_out.
           WriteLogIndex E content logindex ft hp hi = Some (file, size_out)
           \<and> length file = length content + size_out
           \<and> take (length content) file = content
           \<and> LogFileFooter_DecodeFrom E
               (read_range file (length file - LogFileFooter_GetFixedSize E)
                  (LogFileFooter_GetFixedSize E))
               = Some \<lparr>f_filetype = ft, f_has_padding_in_values = hp, f_has_invalid_entries = hi,
                       f_offset_indexes = of_nat (length content),
                       f_num_entries = of_nat (length logindex),
                       f_magic_number = get_magic_number,
                       f_crc32 = crc32c_Value E
                         (read_range file (length content) (length file - length content - 4))\<rparr>
           \<and> unat (of_nat (length logindex) :: u64) = length logindex
           \<and> LoadFile E file fid index_se
               = Some (OK, mm_insert_range (map (index_pair fid) logindex) index_se, length file,
                       IsTypeLarge E ft, IsTypeCompacted E ft)"
proof -
  let ?fixed = "LogFileFooter_GetFixedSize E"
  let ?ib = "concat (map (\<lambda>p. LogFileFooterIndex_EncodeTo E
                                   \<lparr>hashed_key = fst p, offset_entry = snd p\<rparr>) logindex)"
  let ?footer = "\<lparr>f_filetype = ft, f_has_padding_in_values = hp, f_has_invalid_entries = hi,
                    f_offset_indexes = of_nat (length content),
                    f_num_entries = of_nat (length logindex),
                    f_magic_number = get_magic_number, f_crc32 = 0\<rparr>"
  let ?ef = "take (?fixed - 4) (LogFileFooter_EncodeTo E ?footer)"
  let ?body = "?ib @ ?ef"
  let ?crc = "crc32c_Value E ?body"
  let ?c4 = "EncodeFixed32 E ?crc"
  define fl where "fl = content @ ?body @ ?c4"
  have w: "WriteLogIndex E content logindex ft hp hi = Some (fl, length ?ib + ?fixed)"
    using WriteLogIndex_shape [of E logindex content ft hp hi] fx fx4 f32 cap
    by (simp add: Let_def fl_def)
  have lef: "length ?ef = ?fixed - 4"
    using fx by simp
  have lc4: "length ?c4 = 4"
    using f32 by simp
  have len: "length fl = length content + (length ?ib + ?fixed)"
    using lef lc4 fx4 by (simp add: fl_def)
  have pre: "take (length content) fl = content"
    by (simp add: fl_def)
  have c1: "\<not> length fl < ?fixed" and c2: "\<not> length fl < length content + 4"
    using len fx4 by simp_all
  have tail: "read_range fl (length fl - ?fixed) ?fixed = ?ef @ ?c4"
    using lef lc4 fx4 by (simp add: read_range_def len) (simp add: fl_def)
  have region: "read_range fl (length content) (length fl - length content - 4) = ?body"
    using lef lc4 fx4 by (simp add: read_range_def len) (simp add: fl_def)
  have region': "read_range fl (length content) (length fl - (length content + 4)) = ?body"
    using region by simp
  have dec: "LogFileFooter_DecodeFrom E (?ef @ ?c4) = Some (?footer\<lparr>f_crc32 := ?crc\<rparr>)"
    using decf by blast
  have u1: "unat (of_nat (length content) :: u64) = length content"
    using n1 by (simp add: unat_of_nat)
  have n2': "length logindex < 2 ^ 64"
    using n2 by (rule less_trans) simp
  have u2: "unat (of_nat (length logindex) :: u64) = length logindex"
    using n2' by (simp add: unat_of_nat)
  have "unat (of_nat (length logindex) :: u64) \<le> unat (0x7FFFFFFF :: u64)"
    using n2 by (simp add: u2)
  then have c3: "\<not> (0x7FFFFFFF :: u64) < of_nat (length logindex)"
    by (simp only: word_less_nat_alt not_less)
  have loop: "LoadFile_loop E fl fid (length logindex) (length content) index_se
          = Some (mm_insert_range (map (index_pair fid) logindex) index_se)"
    using LoadFile_loop_encoded [of E content logindex "?ef @ ?c4" fid index_se] deci
    by (simp add: fl_def)
  have load: "LoadFile E fl fid index_se
               = Some (OK, mm_insert_range (map (index_pair fid) logindex) index_se, length fl,
                       IsTypeLarge E ft, IsTypeCompacted E ft)"
    by (simp add: LoadFile_def Let_def c1 c2 c3 tail dec region region' u1 u2 loop)
  show ?thesis
    by (simp add: w len [symmetric] pre tail dec region region' u2 load)
qed


theorem C8_footer_round_trip_witness:
  "\<exists>file size_out.
     WriteLogIndex demo_env demo_file1 [(1, 12), (1, 31), (1, 50)] kUncompactedLogType False False
       = Some (file, size_out)
     \<and> length file = 67 + size_out
     \<and> take 67 file = demo_file1
     \<and> LogFileFooter_DecodeFrom demo_env (read_range file (length file - 30) 30)
         = Some \<lparr>f_filetype = kUncompactedLogType, f_has_padding_in_values = False,
                 f_has_invalid_entries = False, f_offset_indexes = 67, f_num_entries = 3,
                 f_magic_number = get_magic_number,
                 f_crc32 = crc32c_Value demo_env (read_range file 67 (length file - 67 - 4))\<rparr>
     \<and> LoadFile demo_env file 1 []
         = Some (OK, [(1, 0x10000000C), (1, 0x10000001F), (1, 0x100000032)], length file,
                 False, False)"
proof -
  have l: "length demo_file1 = 67"
    by code_simp
  have r: "mm_insert_range (map (index_pair 1) [(1, 12), (1, 31), (1, 50)]) []
             = [(1, 0x10000000C), (1, 0x10000001F), (1, 0x100000032)]"
    by code_simp
  have ty: "IsTypeLarge demo_env kUncompactedLogType = False"
       "IsTypeCompacted demo_env kUncompactedLogType = False"
    by (simp_all add: demo_env_def)
  have fs: "LogFileFooter_GetFixedSize demo_env = 30"
    by (simp add: demo_env_def)
  have h1: "\<forall>f. length (LogFileFooter_EncodeTo demo_env f) = LogFileFooter_GetFixedSize demo_env"
    by (simp add: demo_env_def demo_LogFileFooter_EncodeTo_def)
  have h2: "4 \<le> LogFileFooter_GetFixedSize demo_env"
    by (simp add: demo_env_def)
  have h3: "\<forall>c. length (EncodeFixed32 demo_env c) = 4"
    by (simp add: demo_env_def)
  have h4: "\<forall>f c. LogFileFooter_DecodeFrom demo_env
                 (take (LogFileFooter_GetFixedSize demo_env - 4) (LogFileFooter_EncodeTo demo_env f)
                  @ EncodeFixed32 demo_env c) = Some (f\<lparr>f_crc32 := c\<rparr>)"
    using demo_footer_codec by (simp add: demo_env_def)
  have h5: "\<forall>x rest. LogFileFooterIndex_DecodeFrom demo_env
                 (LogFileFooterIndex_EncodeTo demo_env x @ rest)
                 = Some (x, length (LogFileFooterIndex_EncodeTo demo_env x))"
    using demo_footer_index_codec by (simp add: demo_env_def)
  have cap: "length (concat (map (\<lambda>p. LogFileFooterIndex_EncodeTo demo_env
                 \<lparr>hashed_key = fst p, offset_entry = snd p\<rparr>) [(1, 12), (1, 31), (1, 50)]))
              + LogFileFooter_GetFixedSize demo_env \<le> 2 * SIZE_LOGFILE_TOTAL demo_env"
    by (simp add: demo_env_def demo_LogFileFooterIndex_EncodeTo_def)
  have n1: "length demo_file1 < 2 ^ 64"
    by (simp add: l)
  have n2: "length [(1 :: u64, 12 :: u32), (1, 31), (1, 50)] < 2 ^ 31"
    by simp
  show ?thesis
    using C8_footer_round_trip [OF h1 h2 h3 h4 h5 cap n1 n2, of kUncompactedLogType False False 1 "[]"]
    by (simp only: r ty l fs) simp
qed


section \<open>Recovery of a file\<close>









section \<open>Writing orders\<close>

lemma FlushLogIndex_keys:
  "FlushLogIndex E lm = Some lm' \<Longrightarrow>
     key_to_location lm' = key_to_location lm \<and> key_to_headersize lm' = key_to_headersize lm"
  by (auto simp add: FlushLogIndex_def SetFileSize_def split: if_splits option.splits)

lemma CloseCurrentFile_keys:
  "CloseCurrentFile E lm = Some lm' \<Longrightarrow>
     key_to_location lm' = key_to_location lm \<and> key_to_headersize lm' = key_to_headersize lm"
  by (auto simp add: CloseCurrentFile_def dest: FlushLogIndex_keys split: if_splits option.splits)

lemma FlushCurrentFile_keys:
  "FlushCurrentFile E force padding lm = Some (fid, lm') \<Longrightarrow>
     key_to_location lm' = key_to_location lm \<and> key_to_headersize lm' = key_to_headersize lm"
  by (auto simp add: FlushCurrentFile_def SetFileSize_def Let_def
        dest!: CloseCurrentFile_keys split: if_splits option.splits)

lemma OpenNewFile_keys:
  "OpenNewFile E lm = Some lm' \<Longrightarrow>
     key_to_location lm' = key_to_location lm \<and> key_to_headersize lm' = key_to_headersize lm"
  by (auto simp add: OpenNewFile_def IncrementSequenceFileId_def IncrementSequenceTimestamp_def
        Let_def split: if_splits)

lemma WriteOrder_prepare_keys:
  "WriteOrder_prepare E lm = Some lm' \<Longrightarrow>
     key_to_location lm' = key_to_location lm \<and> key_to_headersize lm' = key_to_headersize lm"
  by (auto simp add: WriteOrder_prepare_def
        dest!: OpenNewFile_keys FlushCurrentFile_keys split: if_splits option.splits)

lemma WriteOrder_prepare_idle:
  "has_file lm \<Longrightarrow> \<not> SIZE_LOGFILE_TOTAL E < offset_end lm \<Longrightarrow> WriteOrder_prepare E lm = Some lm"
  by (simp add: WriteOrder_prepare_def)

lemma erase_key_absent:
  "\<forall>m. km tid = Some m \<longrightarrow> m key = None \<Longrightarrow> erase_key tid key km = km"
  by (auto simp add: erase_key_def fun_eq_iff split: option.splits)

lemma location_of_absent:
  "\<forall>m. key_to_location lm (o_tid order) = Some m \<longrightarrow> m (o_key order) = None
   \<Longrightarrow> location_of lm order = 0"
  by (auto simp add: location_of_def split: option.splits)

text \<open>
  Claim C10. An order that is not a first chunk (its \<^verbatim>\<open>offset_chunk\<close> is not zero) and
  for whose thread and key \<^verbatim>\<open>key_to_location\<close> holds no location: the iteration of the
  loop of \<^verbatim>\<open>WriteOrdersAndFlushFile\<close> for that order does what the loop does before
  every order (open a file when there is none, flush when the buffer has passed the size of
  a block), and nothing more to the files, the sizes, the footer indexes, the counters and
  the buffer; the output map is as it was, also when the order is a last chunk, in which
  case only a header size recorded for the key is forgotten. With an active file and no
  flush due, the files, the footer indexes and the output map after the iteration are
  those before it.
\<close>

theorem C10_orphan_chunk:
  assumes nz: "o_offset_chunk order \<noteq> 0"
    and nf: "\<not> IsFirstChunk E order"
    and nl: "\<forall>m. key_to_location lm (o_tid order) = Some m \<longrightarrow> m (o_key order) = None"
  shows "WriteOrder E U order (lm, map_index_out) =
           (case WriteOrder_prepare E lm of
              None \<Rightarrow> None
            | Some lm1 \<Rightarrow>
                Some (if IsLastChunk E order
                      then lm1\<lparr>key_to_headersize :=
                                 erase_key (o_tid order) (o_key order) (key_to_headersize lm1)\<rparr>
                      else lm1,
                      map_index_out))
         \<and> (has_file lm \<and> \<not> SIZE_LOGFILE_TOTAL E < offset_end lm \<longrightarrow>
              (\<exists>lm'. WriteOrder E U order (lm, map_index_out) = Some (lm', map_index_out)
                     \<and> files lm' = files lm \<and> filesizes lm' = filesizes lm
                     \<and> logindexes lm' = logindexes lm
                     \<and> num_writes_in_progress lm' = num_writes_in_progress lm
                     \<and> buffer_raw lm' = buffer_raw lm \<and> offset_end lm' = offset_end lm
                     \<and> key_to_location lm' = key_to_location lm))"
proof -
  have step: "WriteOrder E U order (lm, map_index_out) =
           (case WriteOrder_prepare E lm of
              None \<Rightarrow> None
            | Some lm1 \<Rightarrow>
                Some (if IsLastChunk E order
                      then lm1\<lparr>key_to_headersize :=
                                 erase_key (o_tid order) (o_key order) (key_to_headersize lm1)\<rparr>
                      else lm1,
                      map_index_out))"
  proof (cases "WriteOrder_prepare E lm")
    case None
    then show ?thesis by (simp add: WriteOrder_def)
  next
    case (Some lm1)
    have k: "key_to_location lm1 = key_to_location lm"
      using WriteOrder_prepare_keys [OF Some] by simp
    have l0: "location_of lm1 order = 0"
      using nl location_of_absent [of lm1 order] by (simp add: k)
    have e: "erase_key (o_tid order) (o_key order) (key_to_location lm1) = key_to_location lm1"
      using nl by (simp add: erase_key_absent k)
    have d: "WriteOrder_dispatch E U order (HashFunction E (o_key order)) lm1 = Some (0, lm1)"
      using nz nf by (simp add: WriteOrder_dispatch_def l0)
    show ?thesis
      using nf by (simp add: WriteOrder_def Some d WriteOrder_finish_def IsSelfContained_def e)
  qed
  show ?thesis
    using step by (auto simp add: WriteOrder_prepare_idle)
qed

theorem C10_orphan_chunk_witness:
  "o_offset_chunk demo_orphan = 3
   \<and> IsFirstChunk demo_env demo_orphan = False
   \<and> key_to_location demo_active (o_tid demo_orphan) = None
   \<and> IsLastChunk demo_env demo_orphan = True
   \<and> (\<exists>lm'. WriteOrder demo_env demo_U demo_orphan (demo_active, [(7, 8)]) = Some (lm', [(7, 8)])
         \<and> files lm' = files demo_active \<and> logindexes lm' = logindexes demo_active)"
proof -
  have a: "o_offset_chunk demo_orphan = 3"
    by (simp add: demo_orphan_def)
  have b: "IsFirstChunk demo_env demo_orphan = False"
    by (simp add: demo_env_def demo_orphan_def)
  have c: "key_to_location demo_active (o_tid demo_orphan) = None"
    by (simp add: demo_active_def manager0_def)
  have d: "IsLastChunk demo_env demo_orphan = True"
    by (simp add: demo_env_def demo_IsLastChunk_def demo_orphan_def)
  have h: "has_file demo_active \<and> \<not> SIZE_LOGFILE_TOTAL demo_env < offset_end demo_active"
    by (simp add: demo_active_def demo_env_def)
  have p: "o_offset_chunk demo_orphan \<noteq> 0"
    using a by simp
  have q: "\<not> IsFirstChunk demo_env demo_orphan"
    using b by simp
  have r: "\<forall>m. key_to_location demo_active (o_tid demo_orphan) = Some m
             \<longrightarrow> m (o_key demo_orphan) = None"
    using c by simp
  from C10_orphan_chunk [OF p q r, of demo_U "[(7, 8)]", THEN conjunct2, rule_format, OF h]
  obtain lm' where
    "WriteOrder demo_env demo_U demo_orphan (demo_active, [(7, 8)]) = Some (lm', [(7, 8)])"
    "files lm' = files demo_active" "logindexes lm' = logindexes demo_active"
    by blast
  then show ?thesis
    using a b c d by blast
qed






end
